theory Spec2Isabelle
  imports Main
begin

section \<open>Values, errors and the outside world\<close>

text \<open>
  The module \<^verbatim>\<open>torchexpresso/contexts.py\<close> wires objects together from a nested
  configuration mapping. Configuration values, checkpoint records and the objects that
  the loaders build are all Python values. A Python \<^verbatim>\<open>dict\<close> is an association list
  in insertion order (the keys of a configuration are strings). An object built by a
  class that lives outside the module is recorded symbolically: \<open>PObj i p c args kw\<close>
  is the instance of class \<open>c\<close> of package \<open>p\<close> returned by the call with positional
  arguments \<open>args\<close> and keyword arguments \<open>kw\<close> (their values at the time of the call);
  \<open>i\<close> is the number of external calls completed before it, so two instances built
  by two calls are different values. \<open>PRes i m\<close> is the value returned by the external
  method call \<open>m\<close> that was the \<open>i\<close>-th completed call. \<open>PFun f\<close> is the
  module-level function \<open>f\<close> passed as a value, \<open>PDevice n\<close> is \<^verbatim>\<open>torch.device(n)\<close>,
  and \<open>PRegistry c es\<close> is a registry of class \<open>c\<close> with the entries \<open>es\<close>.

  Values are trees: two places of a configuration never share one mutable object (as in
  a configuration read from JSON), and the external classes do not write to the
  arguments they are given.
\<close>

datatype pyval =
    PNone
  | PBool bool
  | PInt int
  | PStr string
  | PList "pyval list"
  | PDict "(string \<times> pyval) list"
  | PDevice string
  | PFun string
  | PObj nat string string "pyval list" "(string \<times> pyval) list"
  | PRes nat string
  | PRegistry string "(string \<times> pyval) list"

type_synonym pydict = "(string \<times> pyval) list"

datatype error =
    KeyError pyval
  | TypeError
  | AttributeError
  | Exception string
  | Raised string

text \<open>
  Every call that leaves the module is an event: instantiating a class, calling a
  method of an object, creating a directory, logging and printing. The log of completed
  events, in order, is the only state besides the configuration.
\<close>

datatype event =
    New pyval
  | Call pyval string "pyval list" pydict
  | MakeDirs pyval
  | LogInfo string "pyval list"
  | Print string "pyval list"

text \<open>
  What the module reads from its environment is a parameter of the model:
  whether CUDA is available, the temporary directory, which paths exist, whether a
  package imports (\<^verbatim>\<open>__import__\<close>), whether a package and class name resolve
  (\<^verbatim>\<open>__import__\<close> and then \<^verbatim>\<open>getattr\<close>), the parameter
  names of a class's constructor (\<^verbatim>\<open>inspect.signature\<close>), the \<^verbatim>\<open>name\<close> attribute of
  a constructed callback or saver, the checkpoint stored at a path
  (\<^verbatim>\<open>load_checkpoint_from_path\<close> of \<^verbatim>\<open>torchexpresso.savers\<close>), and whether an
  external call raises, given the calls completed so far.
\<close>

record world =
  cuda_is_available :: bool
  gettempdir :: string
  path_exists :: "pyval \<Rightarrow> error + bool"
  find_module :: "string \<Rightarrow> error option"
  find_class :: "string \<Rightarrow> string \<Rightarrow> error option"
  ctor_params :: "string \<Rightarrow> string \<Rightarrow> string list"
  name_attr :: "pyval \<Rightarrow> string option"
  load_checkpoint_from_path :: "pyval \<Rightarrow> error + pyval"
  raises :: "event list \<Rightarrow> event \<Rightarrow> error option"

subsection \<open>Computations: a result or an exception, and the event log\<close>

type_synonym 'a act = "event list \<Rightarrow> (error + 'a) \<times> event list"

definition ret :: "'a \<Rightarrow> 'a act" where
  "ret x = (\<lambda>log. (Inr x, log))"

definition raise :: "error \<Rightarrow> 'a act" where
  "raise e = (\<lambda>log. (Inl e, log))"

definition bnd :: "'a act \<Rightarrow> ('a \<Rightarrow> 'b act) \<Rightarrow> 'b act" where
  "bnd m f = (\<lambda>log. case m log of
                 (Inl e, log') \<Rightarrow> (Inl e, log')
               | (Inr x, log') \<Rightarrow> f x log')"

definition lift :: "error + 'a \<Rightarrow> 'a act" where
  "lift r = (case r of Inl e \<Rightarrow> raise e | Inr x \<Rightarrow> ret x)"

definition ext :: "world \<Rightarrow> event \<Rightarrow> unit act" where
  "ext w ev = (\<lambda>log. case raises w log ev of
                 Some e \<Rightarrow> (Inl e, log)
               | None \<Rightarrow> (Inr (), log @ [ev]))"

definition new_object :: "world \<Rightarrow> string \<Rightarrow> string \<Rightarrow> pyval list \<Rightarrow> pydict \<Rightarrow> pyval act" where
  "new_object w pkg cls args kwargs =
     (\<lambda>log. let obj = PObj (length log) pkg cls args kwargs in
        case raises w log (New obj) of
          Some e \<Rightarrow> (Inl e, log)
        | None \<Rightarrow> (Inr obj, log @ [New obj]))"

definition call_method :: "world \<Rightarrow> pyval \<Rightarrow> string \<Rightarrow> pyval list \<Rightarrow> pydict \<Rightarrow> pyval act" where
  "call_method w obj m args kwargs =
     (\<lambda>log. case raises w log (Call obj m args kwargs) of
          Some e \<Rightarrow> (Inl e, log)
        | None \<Rightarrow> (Inr (PRes (length log) m), log @ [Call obj m args kwargs]))"

subsection \<open>Python's operations on values\<close>

fun truthy :: "pyval \<Rightarrow> bool" where
  "truthy PNone = False"
| "truthy (PBool b) = b"
| "truthy (PInt i) = (i \<noteq> 0)"
| "truthy (PStr s) = (s \<noteq> [])"
| "truthy (PList xs) = (xs \<noteq> [])"
| "truthy (PDict d) = (d \<noteq> [])"
| "truthy _ = True"

definition py_lookup :: "pydict \<Rightarrow> string \<Rightarrow> pyval option" where
  "py_lookup d k = map_of d k"

fun dict_set :: "pydict \<Rightarrow> string \<Rightarrow> pyval \<Rightarrow> pydict" where
  "dict_set [] k v = [(k, v)]"
| "dict_set ((k', v') # d) k v =
     (if k' = k then (k, v) # d else (k', v') # dict_set d k v)"

text \<open>\<^verbatim>\<open>{**a, **b}\<close>: the items of \<open>a\<close>, then each item of \<open>b\<close> stored in turn.\<close>

definition dict_merge :: "pydict \<Rightarrow> pydict \<Rightarrow> pydict" where
  "dict_merge a b = foldl (\<lambda>d (k, v). dict_set d k v) a b"

fun is_substring :: "string \<Rightarrow> string \<Rightarrow> bool" where
  "is_substring k [] = (k = [])"
| "is_substring k (c # s) = (take (length k) (c # s) = k \<or> is_substring k s)"

text \<open>\<^verbatim>\<open>k in v\<close> for a string \<open>k\<close>.\<close>

fun py_in :: "string \<Rightarrow> pyval \<Rightarrow> error + bool" where
  "py_in k (PDict d) = Inr (py_lookup d k \<noteq> None)"
| "py_in k (PList xs) = Inr (PStr k \<in> set xs)"
| "py_in k (PStr s) = Inr (is_substring k s)"
| "py_in k _ = Inl TypeError"

text \<open>\<^verbatim>\<open>v[k]\<close> for a string \<open>k\<close>.\<close>

fun py_getitem :: "pyval \<Rightarrow> string \<Rightarrow> error + pyval" where
  "py_getitem (PDict d) k = (case py_lookup d k of None \<Rightarrow> Inl (KeyError (PStr k)) | Some v \<Rightarrow> Inr v)"
| "py_getitem _ k = Inl TypeError"

text \<open>\<^verbatim>\<open>v[k] = x\<close> for a string \<open>k\<close>; the result is \<open>v\<close> after the assignment.\<close>

fun py_setitem :: "pyval \<Rightarrow> string \<Rightarrow> pyval \<Rightarrow> error + pyval" where
  "py_setitem (PDict d) k x = Inr (PDict (dict_set d k x))"
| "py_setitem _ k x = Inl TypeError"

text \<open>The elements a \<^verbatim>\<open>for\<close> loop or a comprehension visits.\<close>

fun py_iter :: "pyval \<Rightarrow> error + pyval list" where
  "py_iter (PList xs) = Inr xs"
| "py_iter (PDict d) = Inr (map (\<lambda>(k, v). PStr k) d)"
| "py_iter (PStr s) = Inr (map (\<lambda>c. PStr [c]) s)"
| "py_iter _ = Inl TypeError"

text \<open>\<^verbatim>\<open>**v\<close> in a call.\<close>

fun py_kwargs :: "pyval \<Rightarrow> error + pydict" where
  "py_kwargs (PDict d) = Inr d"
| "py_kwargs _ = Inl TypeError"

text \<open>\<^verbatim>\<open>v + 1\<close>.\<close>

fun py_add1 :: "pyval \<Rightarrow> error + pyval" where
  "py_add1 (PInt n) = Inr (PInt (n + 1))"
| "py_add1 (PBool b) = Inr (PInt ((if b then 1 else 0) + 1))"
| "py_add1 _ = Inl TypeError"

definition contains :: "string \<Rightarrow> pyval \<Rightarrow> bool act" where
  "contains k v = lift (py_in k v)"

definition get :: "pyval \<Rightarrow> string \<Rightarrow> pyval act" where
  "get v k = lift (py_getitem v k)"

text \<open>
  \<^verbatim>\<open>__import__(package, fromlist=cls)\<close> followed by \<^verbatim>\<open>getattr(package, cls)\<close>. The
  package is imported first: a class name that is not a string fails in \<^verbatim>\<open>getattr\<close>,
  after a package that does not import has raised its own error. A package name that
  is not a string fails in \<^verbatim>\<open>__import__\<close>.
\<close>

fun import_class :: "world \<Rightarrow> pyval \<Rightarrow> pyval \<Rightarrow> (string \<times> string) act" where
  "import_class w (PStr p) (PStr c) =
     (case find_class w p c of Some e \<Rightarrow> raise e | None \<Rightarrow> ret (p, c))"
| "import_class w (PStr p) _ =
     (case find_module w p of Some e \<Rightarrow> raise e | None \<Rightarrow> raise TypeError)"
| "import_class w _ _ = raise TypeError"

section \<open>The loaders\<close>

definition PARAM_DRY_RUN :: string where "PARAM_DRY_RUN = ''dry_run''"
definition PARAM_CPU_ONLY :: string where "PARAM_CPU_ONLY = ''cpu_only''"
definition PARAM_RESUME :: string where "PARAM_RESUME = ''resume''"

definition is_dryrun :: "pyval \<Rightarrow> pyval act" where
  "is_dryrun exp_params =
     bnd (contains PARAM_DRY_RUN exp_params) (\<lambda>present.
       if present then get exp_params PARAM_DRY_RUN else ret (PBool False))"

subsection \<open>Device\<close>

definition load_device :: "world \<Rightarrow> pyval \<Rightarrow> pyval" where
  "load_device w force_cpu =
     (let device_name =
        (if truthy force_cpu then ''cpu''
         else if cuda_is_available w then ''cuda:0'' else ''cpu'')
      in PDevice device_name)"

definition load_device_from_config :: "world \<Rightarrow> pydict \<Rightarrow> pyval act" where
  "load_device_from_config w experiment_config =
     bnd (get (PDict experiment_config) ''params'') (\<lambda>params.
     bnd (contains PARAM_CPU_ONLY params) (\<lambda>present.
       if present
       then bnd (get params PARAM_CPU_ONLY) (\<lambda>cpu_only. ret (load_device w cpu_only))
       else ret (load_device w (PBool False))))"

subsection \<open>Step and loss functions\<close>

definition load_step_config_dynamically :: "world \<Rightarrow> pyval \<Rightarrow> pyval \<Rightarrow> pyval \<Rightarrow> pyval act" where
  "load_step_config_dynamically w python_package python_class step_kwargs =
     bnd (import_class w python_package python_class) (\<lambda>(p, c).
       if step_kwargs = PNone then new_object w p c [] []
       else bnd (lift (py_kwargs step_kwargs)) (\<lambda>kw. new_object w p c [] kw))"

definition load_step_fn :: "world \<Rightarrow> pyval \<Rightarrow> pyval act" where
  "load_step_fn w step_config =
     bnd (contains ''kwargs'' step_config) (\<lambda>has_kwargs.
     bnd (get step_config ''package'') (\<lambda>p.
     bnd (get step_config ''class'') (\<lambda>c.
       if has_kwargs
       then bnd (get step_config ''kwargs'') (\<lambda>k. load_step_config_dynamically w p c k)
       else load_step_config_dynamically w p c PNone)))"

definition load_loss_fn_dynamically :: "world \<Rightarrow> pyval \<Rightarrow> pyval \<Rightarrow> pyval \<Rightarrow> pyval act" where
  "load_loss_fn_dynamically w python_package python_class loss_kwargs =
     bnd (import_class w python_package python_class) (\<lambda>(p, c).
       if loss_kwargs = PNone then new_object w p c [] []
       else bnd (lift (py_kwargs loss_kwargs)) (\<lambda>kw. new_object w p c [] kw))"

definition load_loss_fn :: "world \<Rightarrow> pyval \<Rightarrow> pyval act" where
  "load_loss_fn w loss_config =
     bnd (contains ''kwargs'' loss_config) (\<lambda>has_kwargs.
     bnd (get loss_config ''package'') (\<lambda>p.
     bnd (get loss_config ''class'') (\<lambda>c.
       if has_kwargs
       then bnd (get loss_config ''kwargs'') (\<lambda>k. load_loss_fn_dynamically w p c k)
       else load_loss_fn_dynamically w p c PNone)))"

subsection \<open>Callbacks\<close>

text \<open>
  Modelled from the spec: the classes \<^verbatim>\<open>CallbackRegistry\<close> (of
  \<^verbatim>\<open>torchexpresso.callbacks\<close>) and \<^verbatim>\<open>SaverRegistry\<close> (of \<^verbatim>\<open>torchexpresso.savers\<close>)
  are not in the module. The spec describes both as ordered, name-keyed collections of
  constructed plugin instances that resolve a string reference to an entry registered
  before, and a reference that is not registered as a lookup failure. A registry is
  therefore a dictionary from names to instances: \<^verbatim>\<open>registry[name] = x\<close> stores,
  \<^verbatim>\<open>registry[ref]\<close> looks up and raises when \<open>ref\<close> is not a key. Creating the
  empty registry is not an external call.
\<close>

type_synonym registry = pydict

definition registry_setitem :: "registry \<Rightarrow> string \<Rightarrow> pyval \<Rightarrow> registry" where
  "registry_setitem reg name x = dict_set reg name x"

fun registry_getitem :: "registry \<Rightarrow> pyval \<Rightarrow> error + pyval" where
  "registry_getitem reg (PStr name) =
     (case py_lookup reg name of None \<Rightarrow> Inl (KeyError (PStr name)) | Some x \<Rightarrow> Inr x)"
| "registry_getitem reg (PList xs) = Inl TypeError"
| "registry_getitem reg (PDict d) = Inl TypeError"
| "registry_getitem reg ref = Inl (KeyError ref)"

text \<open>The comprehension \<^verbatim>\<open>[callbacks[ref] for ref in refs]\<close>.\<close>

fun registry_getitems :: "registry \<Rightarrow> pyval list \<Rightarrow> error + pyval list" where
  "registry_getitems reg [] = Inr []"
| "registry_getitems reg (ref # refs) =
     (case registry_getitem reg ref of
        Inl e \<Rightarrow> Inl e
      | Inr x \<Rightarrow> (case registry_getitems reg refs of
                   Inl e \<Rightarrow> Inl e
                 | Inr xs \<Rightarrow> Inr (x # xs)))"

text \<open>The \<^verbatim>\<open>name\<close> attribute of a constructed callback or saver.\<close>

definition get_name :: "world \<Rightarrow> pyval \<Rightarrow> string act" where
  "get_name w obj = (case name_attr w obj of None \<Rightarrow> raise AttributeError | Some n \<Rightarrow> ret n)"

definition load_callback_dynamically ::
  "world \<Rightarrow> pyval \<Rightarrow> pyval \<Rightarrow> pyval \<Rightarrow> pyval \<Rightarrow> pyval act" where
  "load_callback_dynamically w python_package python_class comet clb_kwargs =
     bnd (import_class w python_package python_class) (\<lambda>(p, c).
       let inject_comet =
             list_ex (\<lambda>name. name \<in> set [''comet'', ''experiment'']) (ctor_params w p c)
       in if clb_kwargs = PNone
          then (if inject_comet then new_object w p c [comet] [] else new_object w p c [] [])
          else bnd (lift (py_kwargs clb_kwargs)) (\<lambda>kw.
                 if inject_comet then new_object w p c [comet] kw else new_object w p c [] kw))"

definition load_callback :: "world \<Rightarrow> pyval \<Rightarrow> pyval \<Rightarrow> pyval act" where
  "load_callback w clb_config comet =
     bnd (contains ''kwargs'' clb_config) (\<lambda>has_kwargs.
     bnd (get clb_config ''package'') (\<lambda>p.
     bnd (get clb_config ''class'') (\<lambda>c.
       if has_kwargs
       then bnd (get clb_config ''kwargs'') (\<lambda>k. load_callback_dynamically w p c comet k)
       else load_callback_dynamically w p c comet PNone)))"

text \<open>
  The special handler at the head of the loop body of \<^verbatim>\<open>load_callbacks_from_config\<close>:
  the result is the callback's configuration after the handler has run, with the
  \<^verbatim>\<open>metrics\<close> entry of its \<^verbatim>\<open>kwargs\<close> assigned the list of registered instances.
\<close>

definition resolve_metrics :: "registry \<Rightarrow> pyval \<Rightarrow> pyval act" where
  "resolve_metrics callbacks clb_config =
     bnd (contains ''kwargs'' clb_config) (\<lambda>has_kwargs.
       if has_kwargs
       then bnd (get clb_config ''kwargs'') (\<lambda>clb_kwargs.
            bnd (contains ''metrics'' clb_kwargs) (\<lambda>has_metrics.
              if has_metrics
              then bnd (get clb_kwargs ''metrics'') (\<lambda>metrics.
                   bnd (lift (py_iter metrics)) (\<lambda>refs.
                   bnd (lift (registry_getitems callbacks refs)) (\<lambda>ref_metrics.
                   bnd (lift (py_setitem clb_kwargs ''metrics'' (PList ref_metrics))) (\<lambda>clb_kwargs'.
                   lift (py_setitem clb_config ''kwargs'' clb_kwargs')))))
              else ret clb_config))
       else ret clb_config)"

text \<open>
  The loop over the callback configurations. It returns the configurations as the loop
  leaves them, and the registry.
\<close>

fun load_callbacks_loop ::
  "world \<Rightarrow> pyval \<Rightarrow> pyval list \<Rightarrow> registry \<Rightarrow> (pyval list \<times> registry) act" where
  "load_callbacks_loop w comet [] callbacks = ret ([], callbacks)"
| "load_callbacks_loop w comet (clb_config # rest) callbacks =
     bnd (resolve_metrics callbacks clb_config) (\<lambda>clb_config'.
     bnd (load_callback w clb_config' comet) (\<lambda>clb.
     bnd (get_name w clb) (\<lambda>name.
     bnd (load_callbacks_loop w comet rest (registry_setitem callbacks name clb))
       (\<lambda>(rest', callbacks'). ret (clb_config' # rest', callbacks')))))"

text \<open>
  The result is the experiment configuration as the call leaves it, and the registry.
  Only the elements of a list are mutable objects that the loop can change in place.
\<close>

definition load_callbacks_from_config :: "world \<Rightarrow> pydict \<Rightarrow> pyval \<Rightarrow> (pydict \<times> pyval) act" where
  "load_callbacks_from_config w exp_config comet =
     (if py_lookup exp_config ''callbacks'' \<noteq> None
      then bnd (get (PDict exp_config) ''callbacks'') (\<lambda>clb_configs.
           bnd (lift (py_iter clb_configs)) (\<lambda>cs.
           bnd (load_callbacks_loop w comet cs []) (\<lambda>(cs', callbacks).
           ret (case clb_configs of
                  PList _ \<Rightarrow> dict_set exp_config ''callbacks'' (PList cs')
                | _ \<Rightarrow> exp_config,
                PRegistry ''CallbackRegistry'' callbacks))))
      else bnd (new_object w ''torchexpresso.callbacks.metrics'' ''AverageLossMetric'' [comet] [])
             (\<lambda>loss_default.
           bnd (get_name w loss_default) (\<lambda>name.
           ret (exp_config,
                PRegistry ''CallbackRegistry'' (registry_setitem [] name loss_default)))))"

subsection \<open>Savers\<close>

definition load_saver_dynamically ::
  "world \<Rightarrow> pyval \<Rightarrow> pyval \<Rightarrow> pyval \<Rightarrow> pyval \<Rightarrow> pyval \<Rightarrow> pyval act" where
  "load_saver_dynamically w python_package python_class model_config task_config svr_kwargs =
     bnd (import_class w python_package python_class) (\<lambda>(p, c).
       if svr_kwargs = PNone then new_object w p c [model_config, task_config] []
       else bnd (lift (py_kwargs svr_kwargs)) (\<lambda>kw.
              new_object w p c [model_config, task_config] kw))"

definition load_saver :: "world \<Rightarrow> pyval \<Rightarrow> pyval \<Rightarrow> pyval \<Rightarrow> pyval act" where
  "load_saver w srv_config model_config task_config =
     bnd (contains ''kwargs'' srv_config) (\<lambda>has_kwargs.
     bnd (get srv_config ''package'') (\<lambda>p.
     bnd (get srv_config ''class'') (\<lambda>c.
       if has_kwargs
       then bnd (get srv_config ''kwargs'') (\<lambda>k.
              load_saver_dynamically w p c model_config task_config k)
       else load_saver_dynamically w p c model_config task_config PNone)))"

fun load_savers_loop :: "world \<Rightarrow> pydict \<Rightarrow> pyval list \<Rightarrow> registry \<Rightarrow> registry act" where
  "load_savers_loop w exp_config [] savers = ret savers"
| "load_savers_loop w exp_config (srv_config # rest) savers =
     bnd (get (PDict exp_config) ''model'') (\<lambda>model_config.
     bnd (get (PDict exp_config) ''task'') (\<lambda>task_config.
     bnd (load_saver w srv_config model_config task_config) (\<lambda>svr.
     bnd (get_name w svr) (\<lambda>name.
     load_savers_loop w exp_config rest (registry_setitem savers name svr)))))"

definition load_savers_from_config :: "world \<Rightarrow> pydict \<Rightarrow> pyval act" where
  "load_savers_from_config w exp_config =
     (if py_lookup exp_config ''savers'' \<noteq> None
      then bnd (get (PDict exp_config) ''savers'') (\<lambda>svr_configs.
           bnd (lift (py_iter svr_configs)) (\<lambda>cs.
           bnd (load_savers_loop w exp_config cs []) (\<lambda>savers.
           ret (PRegistry ''SaverRegistry'' savers))))
      else ret (PRegistry ''SaverRegistry'' []))"

subsection \<open>Model, environment and dataset\<close>

definition load_model_dynamically :: "world \<Rightarrow> pyval \<Rightarrow> pyval \<Rightarrow> pyval \<Rightarrow> pyval \<Rightarrow> pyval act" where
  "load_model_dynamically w python_package python_class model_params task =
     bnd (import_class w python_package python_class) (\<lambda>(p, c).
       if model_params = PNone then new_object w p c [task] []
       else new_object w p c [task, model_params] [])"

definition load_model_from_config :: "world \<Rightarrow> pyval \<Rightarrow> pyval \<Rightarrow> pyval act" where
  "load_model_from_config w model_config task =
     bnd (contains ''params'' model_config) (\<lambda>has_params.
     bnd (if has_params then get model_config ''params'' else ret PNone) (\<lambda>model_params.
     bnd (get model_config ''package'') (\<lambda>p.
     bnd (get model_config ''class'') (\<lambda>c.
     load_model_dynamically w p c model_params task))))"

definition load_env_dynamically ::
  "world \<Rightarrow> pyval \<Rightarrow> pyval \<Rightarrow> pyval \<Rightarrow> pyval \<Rightarrow> pyval \<Rightarrow> pyval \<Rightarrow> pyval act" where
  "load_env_dynamically w python_package python_class env_params task split_name device =
     bnd (import_class w python_package python_class) (\<lambda>(p, c).
       new_object w p c [task, env_params, split_name, device] [])"

definition load_env_from_config :: "world \<Rightarrow> pyval \<Rightarrow> pyval \<Rightarrow> pyval \<Rightarrow> pyval \<Rightarrow> pyval act" where
  "load_env_from_config w env_config task split_name device =
     bnd (contains ''params'' env_config) (\<lambda>has_params.
     bnd (if has_params then get env_config ''params'' else ret PNone) (\<lambda>env_params.
     bnd (get env_config ''package'') (\<lambda>p.
     bnd (get env_config ''class'') (\<lambda>c.
     load_env_dynamically w p c env_params task split_name device))))"

definition load_dataset_dynamically ::
  "world \<Rightarrow> pyval \<Rightarrow> pyval \<Rightarrow> pyval \<Rightarrow> pyval \<Rightarrow> pyval \<Rightarrow> pyval \<Rightarrow> pyval act" where
  "load_dataset_dynamically w python_package python_class dataset_params task split_name device =
     bnd (import_class w python_package python_class) (\<lambda>(p, c).
       new_object w p c [task, split_name, dataset_params, device] [])"

definition load_dataset_from_config :: "world \<Rightarrow> pyval \<Rightarrow> pyval \<Rightarrow> pyval \<Rightarrow> pyval \<Rightarrow> pyval act" where
  "load_dataset_from_config w dataset_config task split_name device =
     bnd (contains ''params'' dataset_config) (\<lambda>has_params.
     bnd (if has_params then get dataset_config ''params'' else ret PNone) (\<lambda>ds_params.
     bnd (get dataset_config ''package'') (\<lambda>p.
     bnd (get dataset_config ''class'') (\<lambda>c.
     load_dataset_dynamically w p c ds_params task split_name device))))"

subsection \<open>Data providers\<close>

text \<open>
  The assignment \<^verbatim>\<open>experiment_config["dataset"]["params"]["split_name"] = split_name\<close>;
  the result is the experiment configuration after it.
\<close>

definition set_split_name :: "pydict \<Rightarrow> string \<Rightarrow> pydict act" where
  "set_split_name experiment_config split_name =
     bnd (get (PDict experiment_config) ''dataset'') (\<lambda>dataset_config.
     bnd (get dataset_config ''params'') (\<lambda>params.
     bnd (lift (py_setitem params ''split_name'' (PStr split_name))) (\<lambda>params'.
     bnd (lift (py_setitem dataset_config ''params'' params')) (\<lambda>dataset_config'.
     ret (dict_set experiment_config ''dataset'' dataset_config')))))"

text \<open>
  The head of the loop body: what is passed to the dataset as its split. \<open>env\<close> is the
  local variable of that name, bound only when the configuration has an \<^verbatim>\<open>env\<close>
  entry. The result is the experiment configuration after the assignment, and the value
  of \<^verbatim>\<open>split_or_env\<close>.
\<close>

definition choose_split_or_env :: "pyval option \<Rightarrow> pydict \<Rightarrow> string \<Rightarrow> (pydict \<times> pyval) act" where
  "choose_split_or_env env experiment_config split_name =
     (if py_lookup experiment_config ''env'' \<noteq> None
      then bnd (set_split_name experiment_config split_name) (\<lambda>experiment_config'.
           case env of
             None \<Rightarrow> raise (Raised ''UnboundLocalError'')
           | Some e \<Rightarrow> ret (experiment_config', e))
      else ret (experiment_config, PStr split_name))"

text \<open>
  The rest of the loop body: the dataset and the \<^verbatim>\<open>DataLoader\<close> around it. The
  dataset is given the \<^verbatim>\<open>params\<close> of the \<^verbatim>\<open>dataset\<close> section as they are at this
  point. The function \<^verbatim>\<open>collate_variable_sequences\<close> is passed by reference and not
  called by the module.
\<close>

definition load_provider :: "world \<Rightarrow> pydict \<Rightarrow> string \<Rightarrow> pyval \<Rightarrow> pyval \<Rightarrow> pyval act" where
  "load_provider w experiment_config split_name split_or_env device =
     bnd (get (PDict experiment_config) ''dataset'') (\<lambda>dataset_config.
     bnd (get (PDict experiment_config) ''task'') (\<lambda>task.
     bnd (load_dataset_from_config w dataset_config task split_or_env device) (\<lambda>dataset.
     bnd (get (PDict experiment_config) ''params'') (\<lambda>params.
     bnd (get params ''batch_size'') (\<lambda>batch_size.
     new_object w ''torch.utils.data.dataloader'' ''DataLoader'' [dataset]
       [(''batch_size'', batch_size),
        (''shuffle'', PBool (split_name = ''train''
                             \<and> py_lookup experiment_config ''env'' = None)),
        (''collate_fn'', PFun ''collate_variable_sequences'')])))))"

text \<open>
  The loop over the split names. It returns the experiment configuration as it leaves
  it, and the providers.
\<close>

fun load_providers_loop ::
  "world \<Rightarrow> pyval option \<Rightarrow> pyval \<Rightarrow> string list \<Rightarrow> pydict \<Rightarrow> pydict \<Rightarrow> (pydict \<times> pydict) act" where
  "load_providers_loop w env device [] experiment_config providers =
     ret (experiment_config, providers)"
| "load_providers_loop w env device (split_name # rest) experiment_config providers =
     bnd (choose_split_or_env env experiment_config split_name)
       (\<lambda>(experiment_config', split_or_env).
     bnd (load_provider w experiment_config' split_name split_or_env device) (\<lambda>provider.
     load_providers_loop w env device rest experiment_config'
       (dict_set providers split_name provider)))"

definition load_providers_from_config ::
  "world \<Rightarrow> pydict \<Rightarrow> string list \<Rightarrow> pyval \<Rightarrow> (pydict \<times> pyval) act" where
  "load_providers_from_config w experiment_config split_names device =
     bnd (if py_lookup experiment_config ''env'' \<noteq> None
          then bnd (get (PDict experiment_config) ''env'') (\<lambda>env_config.
               bnd (get (PDict experiment_config) ''task'') (\<lambda>task.
               bnd (load_env_from_config w env_config task (PStr ''env'') device) (\<lambda>env.
               ret (Some env))))
          else ret None) (\<lambda>env.
     bnd (load_providers_loop w env device split_names experiment_config [])
       (\<lambda>(experiment_config', providers). ret (experiment_config', PDict providers)))"

text \<open>The \<^verbatim>\<open>shuffle\<close> argument a data provider was built with.\<close>

definition provider_shuffle :: "pyval \<Rightarrow> pyval option" where
  "provider_shuffle provider =
     (case provider of PObj i p c args kw \<Rightarrow> py_lookup kw ''shuffle'' | _ \<Rightarrow> None)"

subsection \<open>The tracking client\<close>

text \<open>\<^verbatim>\<open>os.path.join(a, b)\<close> for a relative \<open>b\<close>.\<close>

definition path_join :: "string \<Rightarrow> string \<Rightarrow> string" where
  "path_join a b = (if a = [] \<or> last a = CHR ''/'' then a @ b else a @ ''/'' @ b)"

definition load_cometml_experiment :: "world \<Rightarrow> pyval \<Rightarrow> pyval \<Rightarrow> pyval act" where
  "load_cometml_experiment w comet_config experiment_name =
     bnd (contains ''workspace'' comet_config) (\<lambda>has_workspace.
     bnd (if has_workspace then get comet_config ''workspace'' else ret PNone)
       (\<lambda>cometml_workspace.
     bnd (contains ''project_name'' comet_config) (\<lambda>has_project.
     bnd (if has_project then get comet_config ''project_name'' else ret PNone)
       (\<lambda>cometml_project.
     bnd (get comet_config ''offline'') (\<lambda>offline.
     bnd (if truthy offline
          then bnd (contains ''offline_directory'' comet_config) (\<lambda>has_directory.
               bnd (if has_directory then get comet_config ''offline_directory'' else ret PNone)
                 (\<lambda>configured.
               let offline_directory =
                     (if configured = PNone
                      then PStr (path_join (gettempdir w) ''cometml'') else configured)
               in bnd (lift (path_exists w offline_directory)) (\<lambda>exists.
                  bnd (if exists then ret () else ext w (MakeDirs offline_directory)) (\<lambda>_.
                  bnd (ext w (LogInfo ''Writing CometML experiments to %s'' [offline_directory]))
                    (\<lambda>_.
                  new_object w ''comet_ml'' ''OfflineExperiment'' []
                    [(''workspace'', cometml_workspace),
                     (''project_name'', cometml_project),
                     (''offline_directory'', offline_directory)])))))
          else bnd (get comet_config ''api_key'') (\<lambda>api_key.
               new_object w ''comet_ml'' ''Experiment'' []
                 [(''workspace'', cometml_workspace),
                  (''project_name'', cometml_project),
                  (''api_key'', api_key)])) (\<lambda>experiment.
     bnd (call_method w experiment ''set_name'' [experiment_name] []) (\<lambda>_.
     ret experiment)))))))"

subsection \<open>Logging the configuration and the checkpoint\<close>

text \<open>\<^verbatim>\<open>dict([("%s-%s" % (prefix, name), v) for name, v in params_dict.items()])\<close>.\<close>

fun apply_prefix :: "pyval \<Rightarrow> string \<Rightarrow> error + pyval" where
  "apply_prefix (PDict d) prefix =
     Inr (PDict (dict_merge [] (map (\<lambda>(name, v). (prefix @ ''-'' @ name, v)) d)))"
| "apply_prefix _ prefix = Inl AttributeError"

definition log_prefixed :: "world \<Rightarrow> pyval \<Rightarrow> pyval \<Rightarrow> string \<Rightarrow> unit act" where
  "log_prefixed w comet params_dict prefix =
     bnd (lift (apply_prefix params_dict prefix)) (\<lambda>d.
     bnd (call_method w comet ''log_parameters'' [d] []) (\<lambda>_. ret ()))"

definition log_section_params :: "world \<Rightarrow> pyval \<Rightarrow> pydict \<Rightarrow> string \<Rightarrow> string \<Rightarrow> unit act" where
  "log_section_params w comet experiment_config section_name prefix =
     (if py_lookup experiment_config section_name \<noteq> None
      then bnd (get (PDict experiment_config) section_name) (\<lambda>sec.
           bnd (contains ''params'' sec) (\<lambda>has_params.
             if has_params
             then bnd (get sec ''params'') (\<lambda>params. log_prefixed w comet params prefix)
             else ret ()))
      else ret ())"

definition log_config :: "world \<Rightarrow> pyval \<Rightarrow> pydict \<Rightarrow> unit act" where
  "log_config w comet experiment_config =
     bnd (if py_lookup experiment_config ''params'' \<noteq> None
          then bnd (get (PDict experiment_config) ''params'') (\<lambda>params.
                 log_prefixed w comet params ''exp'')
          else ret ()) (\<lambda>_.
     bnd (log_section_params w comet experiment_config ''model'' ''model'') (\<lambda>_.
     bnd (log_section_params w comet experiment_config ''dataset'' ''ds'') (\<lambda>_.
     if py_lookup experiment_config ''task'' \<noteq> None
     then bnd (get (PDict experiment_config) ''task'') (\<lambda>task.
            log_prefixed w comet task ''task'')
     else ret ())))"

fun log_checkpoint_loop :: "world \<Rightarrow> pyval \<Rightarrow> pyval \<Rightarrow> pyval list \<Rightarrow> unit act" where
  "log_checkpoint_loop w comet checkpoint [] = ret ()"
| "log_checkpoint_loop w comet checkpoint (PStr entry_name # rest) =
     (if take 3 entry_name = ''cp-''
      then bnd (get checkpoint entry_name) (\<lambda>v.
           bnd (call_method w comet ''log_other'' [PStr entry_name, v] []) (\<lambda>_.
           log_checkpoint_loop w comet checkpoint rest))
      else log_checkpoint_loop w comet checkpoint rest)"
| "log_checkpoint_loop w comet checkpoint (_ # rest) = raise AttributeError"

definition log_checkpoint :: "world \<Rightarrow> pyval \<Rightarrow> pyval \<Rightarrow> unit act" where
  "log_checkpoint w comet checkpoint =
     (if truthy comet
      then bnd (lift (py_iter checkpoint)) (\<lambda>entry_names.
             log_checkpoint_loop w comet checkpoint entry_names)
      else ret ())"

section \<open>The contexts\<close>

text \<open>
  Each context class holds one dictionary, \<^verbatim>\<open>holder\<close>, from role names to objects.
  Python does not check the class of the \<^verbatim>\<open>experiment_context\<close> argument of the
  specialised constructors: it only reads its \<^verbatim>\<open>holder\<close>.
\<close>

record pycontext =
  holder :: pydict

definition context_getitem :: "pycontext \<Rightarrow> string \<Rightarrow> error + pyval" where
  "context_getitem c item = py_getitem (PDict (holder c)) item"

definition ExperimentContext_init ::
  "pyval \<Rightarrow> pyval \<Rightarrow> pyval \<Rightarrow> pyval \<Rightarrow> pyval \<Rightarrow> pycontext" where
  "ExperimentContext_init config comet device providers callbacks =
     \<lparr>holder = dict_set (dict_set (dict_set (dict_set (dict_set []
         ''config'' config) ''comet'' comet) ''device'' device)
         ''providers'' providers) ''callbacks'' callbacks\<rparr>"

definition TrainingContext_init ::
  "pycontext \<Rightarrow> pyval \<Rightarrow> pyval \<Rightarrow> pyval \<Rightarrow> pyval \<Rightarrow> pyval \<Rightarrow> pyval \<Rightarrow> pycontext" where
  "TrainingContext_init experiment_context model optimizer loss_fn step_fn epoch_start savers =
     \<lparr>holder = dict_merge
        (dict_set (dict_set (dict_set (dict_set (dict_set (dict_set []
          ''model'' model) ''optimizer'' optimizer) ''loss_fn'' loss_fn)
          ''step_fn'' step_fn) ''epoch_start'' epoch_start) ''savers'' savers)
        (holder experiment_context)\<rparr>"

definition PredictionContext_init :: "pycontext \<Rightarrow> pyval \<Rightarrow> pycontext" where
  "PredictionContext_init experiment_context model =
     \<lparr>holder = dict_merge (dict_set [] ''model'' model) (holder experiment_context)\<rparr>"

definition ProcessorContext_init :: "pycontext \<Rightarrow> pycontext" where
  "ProcessorContext_init experiment_context =
     \<lparr>holder = dict_merge [] (holder experiment_context)\<rparr>"

definition context_is_dryrun :: "pycontext \<Rightarrow> pyval act" where
  "context_is_dryrun c =
     bnd (lift (context_getitem c ''config'')) (\<lambda>config.
     bnd (get config ''params'') (\<lambda>params. is_dryrun params))"

subsection \<open>Experiment context\<close>

text \<open>
  \<^verbatim>\<open>ExperimentContext.from_config\<close>. The loaders change the configuration object in
  place, and the context keeps a reference to that object: the \<^verbatim>\<open>config\<close> entry of the
  holder is the configuration as the last loader leaves it. The result is that
  configuration (the caller's \<^verbatim>\<open>experiment_config\<close> after the call) and the context.
\<close>

definition ExperimentContext_from_config ::
  "world \<Rightarrow> pydict \<Rightarrow> string list \<Rightarrow> (pydict \<times> pycontext) act" where
  "ExperimentContext_from_config w experiment_config split_names =
     bnd (get (PDict experiment_config) ''cometml'') (\<lambda>comet_config.
     bnd (get (PDict experiment_config) ''name'') (\<lambda>name.
     bnd (load_cometml_experiment w comet_config name) (\<lambda>comet.
     bnd (if py_lookup experiment_config ''tags'' \<noteq> None
          then bnd (get (PDict experiment_config) ''tags'') (\<lambda>tags.
               bnd (call_method w comet ''add_tags'' [tags] []) (\<lambda>_. ret ()))
          else ret ()) (\<lambda>_.
     bnd (log_config w comet experiment_config) (\<lambda>_.
     bnd (load_callbacks_from_config w experiment_config comet)
       (\<lambda>(experiment_config1, callbacks).
     bnd (load_device_from_config w experiment_config1) (\<lambda>device.
     bnd (load_providers_from_config w experiment_config1 split_names device)
       (\<lambda>(experiment_config2, providers).
     ret (experiment_config2,
          ExperimentContext_init (PDict experiment_config2) comet device providers
            callbacks)))))))))"

subsection \<open>Training context\<close>

text \<open>\<^verbatim>\<open>PARAM_RESUME in params and params[PARAM_RESUME]\<close>.\<close>

definition resume_flag :: "pyval \<Rightarrow> pyval act" where
  "resume_flag params =
     bnd (contains PARAM_RESUME params) (\<lambda>present.
       if present then get params PARAM_RESUME else ret (PBool False))"

text \<open>
  The body of \<^verbatim>\<open>if is_resume:\<close> before the model is moved to the device; it yields the
  starting epoch and the checkpoint.
\<close>

definition resume_from_checkpoint ::
  "world \<Rightarrow> pydict \<Rightarrow> pycontext \<Rightarrow> pyval \<Rightarrow> (pyval \<times> pyval) act" where
  "resume_from_checkpoint w experiment_config experiment_context model =
     bnd (get (PDict experiment_config) ''params'') (\<lambda>params.
     bnd (get params ''resume_checkpoint_path'') (\<lambda>path.
     bnd (lift (load_checkpoint_from_path w path)) (\<lambda>ckpt.
     bnd (lift (context_getitem experiment_context ''comet'')) (\<lambda>comet.
     bnd (log_checkpoint w comet ckpt) (\<lambda>_.
     bnd (get ckpt ''state_dict'') (\<lambda>state_dict.
     bnd (call_method w model ''load_state_dict'' [state_dict] [(''strict'', PBool False)]) (\<lambda>_.
     bnd (get ckpt ''cp-epoch'') (\<lambda>cp_epoch.
     bnd (lift (py_add1 cp_epoch)) (\<lambda>epoch_start.
     bnd (ext w (Print ''Resume training from epoch: {:d}'' [epoch_start])) (\<lambda>_.
     ret (epoch_start, ckpt)))))))))))"

definition TrainingContext_from_config ::
  "world \<Rightarrow> pydict \<Rightarrow> string list \<Rightarrow> pycontext act" where
  "TrainingContext_from_config w experiment_config0 split_names =
     bnd (ExperimentContext_from_config w experiment_config0 split_names)
       (\<lambda>(experiment_config, experiment_context).
     bnd (get (PDict experiment_config) ''model'') (\<lambda>model_config.
     bnd (get (PDict experiment_config) ''task'') (\<lambda>task.
     bnd (load_model_from_config w model_config task) (\<lambda>model.
     bnd (get (PDict experiment_config) ''params'') (\<lambda>params.
     bnd (resume_flag params) (\<lambda>is_resume.
     bnd (if truthy is_resume
          then resume_from_checkpoint w experiment_config experiment_context model
          else ret (PInt 1, PNone)) (\<lambda>(epoch_start, ckpt).
     bnd (lift (context_getitem experiment_context ''device'')) (\<lambda>device.
     bnd (call_method w model ''to'' [device] []) (\<lambda>_.
     bnd (call_method w model ''parameters'' [] []) (\<lambda>parameters.
     bnd (new_object w ''torch.optim'' ''Adam'' [parameters] []) (\<lambda>optimizer.
     bnd (if truthy is_resume
          then bnd (get ckpt ''optimizer'') (\<lambda>optimizer_state.
               bnd (call_method w optimizer ''load_state_dict'' [optimizer_state] [])
                 (\<lambda>_. ret ()))
          else ret ()) (\<lambda>_.
     bnd (load_savers_from_config w experiment_config) (\<lambda>savers.
     bnd (get (PDict experiment_config) ''params'') (\<lambda>params1.
     bnd (contains ''loss_fn'' params1) (\<lambda>has_loss_fn.
     bnd (if has_loss_fn
          then bnd (get (PDict experiment_config) ''params'') (\<lambda>params2.
               bnd (get params2 ''loss_fn'') (\<lambda>loss_config. load_loss_fn w loss_config))
          else new_object w ''torch.nn'' ''CrossEntropyLoss'' [] [(''ignore_index'', PInt 0)])
       (\<lambda>loss_fn.
     bnd (get (PDict experiment_config) ''params'') (\<lambda>params3.
     bnd (contains ''step_fn'' params3) (\<lambda>has_step_fn.
     bnd (if has_step_fn
          then bnd (get (PDict experiment_config) ''params'') (\<lambda>params4.
               bnd (get params4 ''step_fn'') (\<lambda>step_config. load_step_fn w step_config))
          else new_object w ''torchexpresso.steps'' ''TrainingStep'' [] []) (\<lambda>step_fn.
     ret (TrainingContext_init experiment_context model optimizer loss_fn step_fn
            epoch_start savers))))))))))))))))))))"

subsection \<open>Prediction and processor contexts\<close>

definition PredictionContext_from_config ::
  "world \<Rightarrow> pydict \<Rightarrow> string list \<Rightarrow> pyval \<Rightarrow> pycontext act" where
  "PredictionContext_from_config w experiment_config split_names model_path =
     (if model_path = PNone
      then raise (Exception
             ''Missing 'model_path' argument. Please provide a path to the model.'')
      else
        bnd (ExperimentContext_from_config w experiment_config split_names)
          (\<lambda>(experiment_config', experiment_context).
        bnd (lift (load_checkpoint_from_path w model_path)) (\<lambda>ckpt.
        bnd (lift (context_getitem experiment_context ''comet'')) (\<lambda>comet.
        bnd (log_checkpoint w comet ckpt) (\<lambda>_.
        bnd (get ckpt ''cp-model'') (\<lambda>cp_model.
        bnd (get ckpt ''cp-task'') (\<lambda>cp_task.
        bnd (load_model_from_config w cp_model cp_task) (\<lambda>model.
        bnd (get ckpt ''state_dict'') (\<lambda>state_dict.
        bnd (call_method w model ''load_state_dict'' [state_dict] [(''strict'', PBool False)])
          (\<lambda>_.
        bnd (lift (context_getitem experiment_context ''device'')) (\<lambda>device.
        bnd (call_method w model ''to'' [device] []) (\<lambda>_.
        ret (PredictionContext_init experiment_context model)))))))))))))"

definition ProcessorContext_from_config ::
  "world \<Rightarrow> pydict \<Rightarrow> string list \<Rightarrow> pycontext act" where
  "ProcessorContext_from_config w experiment_config split_names =
     bnd (ExperimentContext_from_config w experiment_config split_names)
       (\<lambda>(experiment_config', experiment_context).
     ret (ProcessorContext_init experiment_context))"

section \<open>Reading results\<close>

text \<open>
  The entry of a mapping value under a key, if the value is a mapping and has the key,
  and the value reached by a path of keys.
\<close>

fun dict_entry :: "pyval \<Rightarrow> string \<Rightarrow> pyval option" where
  "dict_entry (PDict d) k = py_lookup d k"
| "dict_entry _ k = None"

fun config_path :: "pyval \<Rightarrow> string list \<Rightarrow> pyval option" where
  "config_path v [] = Some v"
| "config_path v (k # ks) =
     (case dict_entry v k of None \<Rightarrow> None | Some x \<Rightarrow> config_path x ks)"


text \<open>
  What the \<^verbatim>\<open>metrics\<close> handler of \<^verbatim>\<open>load_callbacks_from_config\<close> has to achieve, told
  without the registry. \<open>prior\<close> are the callback instances constructed so far, in
  order. A reference resolves to the instance constructed last among those that bear
  the referenced name.
\<close>

definition registered :: "world \<Rightarrow> pyval list \<Rightarrow> string \<Rightarrow> pyval option" where
  "registered w prior name = find (\<lambda>x. name_attr w x = Some name) (rev prior)"

fun resolve_ref :: "world \<Rightarrow> pyval list \<Rightarrow> pyval \<Rightarrow> pyval option" where
  "resolve_ref w prior (PStr name) = registered w prior name"
| "resolve_ref w prior _ = None"

text \<open>The value \<open>v\<close> with its entry \<open>k\<close> set, and nothing else changed.\<close>

fun set_entry :: "pyval \<Rightarrow> string \<Rightarrow> pyval \<Rightarrow> pyval" where
  "set_entry (PDict d) k x = PDict (dict_set d k x)"
| "set_entry v k x = v"

definition set_metrics :: "pyval \<Rightarrow> pyval list \<Rightarrow> pyval" where
  "set_metrics c objs =
     (case dict_entry c ''kwargs'' of
        None \<Rightarrow> c
      | Some kw \<Rightarrow> set_entry c ''kwargs'' (set_entry kw ''metrics'' (PList objs)))"

text \<open>
  A callback configuration \<open>c\<close> and the same configuration \<open>c'\<close> after the handler:
  when the \<^verbatim>\<open>kwargs\<close> of \<open>c\<close> have no \<^verbatim>\<open>metrics\<close> entry, \<open>c'\<close> is \<open>c\<close>; otherwise
  \<open>c'\<close> is \<open>c\<close> with that one entry replaced by the list that holds, for each
  reference of the entry in turn, the instance it resolves to.
\<close>

definition metrics_resolved :: "world \<Rightarrow> pyval list \<Rightarrow> pyval \<Rightarrow> pyval \<Rightarrow> bool" where
  "metrics_resolved w prior c c' =
     (case config_path c [''kwargs'', ''metrics''] of
        None \<Rightarrow> c' = c
      | Some metrics \<Rightarrow>
          (case py_iter metrics of
             Inl e \<Rightarrow> False
           | Inr refs \<Rightarrow>
               (case those (map (resolve_ref w prior) refs) of
                  None \<Rightarrow> False
                | Some objs \<Rightarrow> c' = set_metrics c objs)))"

text \<open>
  The callback configurations \<open>cs\<close>, the same configurations \<open>cs'\<close> after the loop and
  the instances \<open>insts\<close> the loop constructed, one for each configuration in order:
  each configuration is resolved against the instances constructed before its own.
\<close>

fun callbacks_resolved ::
  "world \<Rightarrow> pyval list \<Rightarrow> pyval list \<Rightarrow> pyval list \<Rightarrow> pyval list \<Rightarrow> bool" where
  "callbacks_resolved w prior [] [] [] = True"
| "callbacks_resolved w prior (c # cs) (c' # cs') (x # insts) =
     (metrics_resolved w prior c c' \<and> callbacks_resolved w (prior @ [x]) cs cs' insts)"
| "callbacks_resolved w prior _ _ _ = False"

text \<open>Whether a computation, started from a given log, returns a value.\<close>

definition returns :: "'a act \<Rightarrow> event list \<Rightarrow> bool" where
  "returns m log = (case fst (m log) of Inl e \<Rightarrow> False | Inr x \<Rightarrow> True)"

section \<open>Configurations that are accepted\<close>

text \<open>
  A plain configuration has the required sections in the shape the loaders read them:
  a name; a \<^verbatim>\<open>cometml\<close> mapping with the \<^verbatim>\<open>offline\<close> flag, and an \<^verbatim>\<open>api_key\<close> when the
  flag is false; a \<^verbatim>\<open>task\<close> mapping; a \<^verbatim>\<open>model\<close> mapping; a \<^verbatim>\<open>dataset\<close> mapping
  with \<^verbatim>\<open>package\<close> and \<^verbatim>\<open>class\<close> strings; \<^verbatim>\<open>params\<close> with a \<^verbatim>\<open>batch_size\<close>; the
  \<^verbatim>\<open>params\<close> of the model and of the dataset, when present, are mappings; and it
  has neither callbacks nor an environment. In a quiet world no external call raises,
  every class reference resolves, every constructed object has a name and every path
  can be tested for existence.
\<close>

fun is_dict :: "pyval \<Rightarrow> bool" where
  "is_dict (PDict d) = True"
| "is_dict _ = False"

fun is_str :: "pyval \<Rightarrow> bool" where
  "is_str (PStr s) = True"
| "is_str _ = False"

definition optional_dict :: "pyval \<Rightarrow> string \<Rightarrow> bool" where
  "optional_dict v k = (case dict_entry v k of None \<Rightarrow> True | Some p \<Rightarrow> is_dict p)"

definition has_str :: "pyval \<Rightarrow> string \<Rightarrow> bool" where
  "has_str v k = (case dict_entry v k of None \<Rightarrow> False | Some p \<Rightarrow> is_str p)"

definition plain_config :: "pydict \<Rightarrow> bool" where
  "plain_config cfg \<longleftrightarrow>
       py_lookup cfg ''name'' \<noteq> None
     \<and> (case py_lookup cfg ''cometml'' of
          None \<Rightarrow> False
        | Some cm \<Rightarrow> is_dict cm
            \<and> (case dict_entry cm ''offline'' of
                 None \<Rightarrow> False
               | Some offline \<Rightarrow> truthy offline \<or> dict_entry cm ''api_key'' \<noteq> None))
     \<and> (case py_lookup cfg ''task'' of None \<Rightarrow> False | Some task \<Rightarrow> is_dict task)
     \<and> (case py_lookup cfg ''model'' of
          None \<Rightarrow> False
        | Some m \<Rightarrow> is_dict m \<and> optional_dict m ''params'')
     \<and> (case py_lookup cfg ''dataset'' of
          None \<Rightarrow> False
        | Some ds \<Rightarrow> has_str ds ''package'' \<and> has_str ds ''class'' \<and> optional_dict ds ''params'')
     \<and> (case py_lookup cfg ''params'' of
          None \<Rightarrow> False
        | Some ps \<Rightarrow> is_dict ps \<and> dict_entry ps ''batch_size'' \<noteq> None)
     \<and> py_lookup cfg ''callbacks'' = None
     \<and> py_lookup cfg ''env'' = None"

definition quiet_world :: "world \<Rightarrow> bool" where
  "quiet_world w \<longleftrightarrow>
       (\<forall>log ev. raises w log ev = None)
     \<and> (\<forall>p c. find_class w p c = None)
     \<and> (\<forall>i p c args kw. name_attr w (PObj i p c args kw) \<noteq> None)
     \<and> (\<forall>path. path_exists w path = Inr True \<or> path_exists w path = Inr False)"

section \<open>Example inputs\<close>

text \<open>
  A world in which CUDA is available, nothing raises, every class resolves, a
  constructed plugin is named after its class, and one checkpoint is stored; and an
  experiment configuration with the required sections.
\<close>

definition example_checkpoint :: pyval where
  "example_checkpoint = PDict
     [(''state_dict'', PDict [(''w'', PInt 3)]),
      (''optimizer'', PDict []),
      (''cp-epoch'', PInt 5),
      (''cp-model'', PDict [(''package'', PStr ''zoo''), (''class'', PStr ''OldNet'')]),
      (''cp-task'', PDict [(''vocab'', PInt 7)])]"

definition example_world :: world where
  "example_world =
     \<lparr>cuda_is_available = True,
      gettempdir = ''/tmp'',
      path_exists = (\<lambda>p. Inr False),
      find_module = (\<lambda>p. None),
      find_class = (\<lambda>p c. None),
      ctor_params = (\<lambda>p c. if c = ''AverageLossMetric'' then [''comet''] else []),
      name_attr = (\<lambda>obj. case obj of PObj i p c args kw \<Rightarrow> Some c | _ \<Rightarrow> None),
      load_checkpoint_from_path =
        (\<lambda>path. if path = PStr ''model.ckpt'' then Inr example_checkpoint
                 else Inl (Raised ''FileNotFoundError'')),
      raises = (\<lambda>log ev. None)\<rparr>"

definition example_config :: pydict where
  "example_config =
     [(''name'', PStr ''demo''),
      (''cometml'', PDict [(''offline'', PBool True)]),
      (''task'', PDict [(''vocab'', PInt 10)]),
      (''model'', PDict [(''package'', PStr ''zoo''), (''class'', PStr ''Net''),
                         (''params'', PDict [(''hidden'', PInt 8)])]),
      (''dataset'', PDict [(''package'', PStr ''corpora''), (''class'', PStr ''Corpus''),
                           (''params'', PDict [(''path'', PStr ''data'')])]),
      (''params'', PDict [(''batch_size'', PInt 4), (''cpu_only'', PBool True)])]"

definition example_callback_configs :: "pyval list" where
  "example_callback_configs =
     [PDict [(''package'', PStr ''torchexpresso.callbacks.metrics''),
             (''class'', PStr ''AverageLossMetric'')],
      PDict [(''package'', PStr ''torchexpresso.callbacks.metrics''),
             (''class'', PStr ''MetricsMerger''),
             (''kwargs'', PDict [(''metrics'', PList [PStr ''AverageLossMetric''])])]]"

definition example_env :: pyval where
  "example_env = PDict [(''package'', PStr ''envs''), (''class'', PStr ''GridWorld'')]"

definition example_resume_params :: pyval where
  "example_resume_params = PDict
     [(''batch_size'', PInt 4), (''resume'', PBool True),
      (''resume_checkpoint_path'', PStr ''model.ckpt'')]"

text \<open>The configuration with two callbacks, the second referring to the first.\<close>

definition example_callbacks_config :: pydict where
  "example_callbacks_config =
     dict_set example_config ''callbacks'' (PList example_callback_configs)"

text \<open>The configuration with the callbacks and an environment.\<close>

definition example_env_config :: pydict where
  "example_env_config = dict_set example_callbacks_config ''env'' example_env"

text \<open>The configuration that resumes training from the stored checkpoint.\<close>

definition example_resume_config :: pydict where
  "example_resume_config = dict_set example_config ''params'' example_resume_params"

section \<open>Basic facts\<close>

lemma bnd_ret [simp]: "bnd (ret x) f = f x"
  by (simp add: bnd_def ret_def)

lemma bnd_raise [simp]: "bnd (raise e) f = raise e"
  by (simp add: bnd_def raise_def)

lemma ret_apply [simp]: "ret x log = (Inr x, log)"
  by (simp add: ret_def)

lemma raise_apply [simp]: "raise e log = (Inl e, log)"
  by (simp add: raise_def)

lemma lift_simps [simp]: "lift (Inr x) = ret x" "lift (Inl e) = raise e"
  by (simp_all add: lift_def)

lemma bnd_Inr_iff:
  "bnd m f log = (Inr y, log'') \<longleftrightarrow>
     (\<exists>x log'. m log = (Inr x, log') \<and> f x log' = (Inr y, log''))"
  by (auto simp: bnd_def split: prod.splits sum.splits)

lemma py_lookup_Nil [simp]: "py_lookup [] k = None"
  by (simp add: py_lookup_def)

lemma py_lookup_Cons [simp]:
  "py_lookup ((k', v') # d) k = (if k = k' then Some v' else py_lookup d k)"
  by (simp add: py_lookup_def)

lemma py_lookup_dict_set [simp]:
  "py_lookup (dict_set d k v) k' = (if k' = k then Some v else py_lookup d k')"
  by (induction d) auto

lemma keys_dict_set:
  "map fst (dict_set d k v) = (if k \<in> fst ` set d then map fst d else map fst d @ [k])"
  by (induction d) force+

lemma distinct_dict_set:
  "distinct (map fst d) \<Longrightarrow> distinct (map fst (dict_set d k v))"
  by (simp add: keys_dict_set)

lemma py_lookup_foldl_dict_set:
  "distinct (map fst b) \<Longrightarrow>
   py_lookup (foldl (\<lambda>d (k, v). dict_set d k v) a b) k =
     (case py_lookup b k of Some v \<Rightarrow> Some v | None \<Rightarrow> py_lookup a k)"
proof (induction b arbitrary: a)
  case Nil
  show ?case by simp
next
  case (Cons kv b)
  obtain k' v' where kv: "kv = (k', v')" by (cases kv)
  from Cons.prems kv have d: "distinct (map fst b)" and nin: "k' \<notin> fst ` set b"
    by auto
  from nin have none: "py_lookup b k' = None"
    by (simp add: py_lookup_def map_of_eq_None_iff)
  show ?case
    using Cons.IH [OF d, of "dict_set a k' v'"] none
    by (auto simp: kv split: option.splits)
qed

lemma py_lookup_dict_merge:
  "distinct (map fst b) \<Longrightarrow>
   py_lookup (dict_merge a b) k =
     (case py_lookup b k of Some v \<Rightarrow> Some v | None \<Rightarrow> py_lookup a k)"
  unfolding dict_merge_def by (rule py_lookup_foldl_dict_set)

lemma get_PDict:
  "get (PDict d) k = (case py_lookup d k of None \<Rightarrow> raise (KeyError (PStr k)) | Some v \<Rightarrow> ret v)"
  by (simp add: get_def split: option.splits)

lemma contains_PDict: "contains k (PDict d) = ret (py_lookup d k \<noteq> None)"
  by (simp add: contains_def)

lemma lift_Inr_iff [simp]: "lift r log = (Inr x, log') \<longleftrightarrow> r = Inr x \<and> log' = log"
  by (cases r) auto

lemma get_Inr_iff: "get v k log = (Inr x, log') \<longleftrightarrow> py_getitem v k = Inr x \<and> log' = log"
  by (simp add: get_def)

lemma contains_Inr_iff: "contains k v log = (Inr b, log') \<longleftrightarrow> py_in k v = Inr b \<and> log' = log"
  by (simp add: contains_def)

lemma new_object_Inr_iff:
  "new_object w p c args kw log = (Inr obj, log') \<longleftrightarrow>
     raises w log (New (PObj (length log) p c args kw)) = None
     \<and> obj = PObj (length log) p c args kw \<and> log' = log @ [New obj]"
  by (auto simp: new_object_def Let_def split: option.splits)

lemma call_method_Inr_iff:
  "call_method w obj m args kw log = (Inr r, log') \<longleftrightarrow>
     raises w log (Call obj m args kw) = None
     \<and> r = PRes (length log) m \<and> log' = log @ [Call obj m args kw]"
  by (auto simp: call_method_def split: option.splits)

lemma ext_Inr_iff:
  "ext w ev log = (Inr u, log') \<longleftrightarrow> raises w log ev = None \<and> log' = log @ [ev]"
  by (auto simp: ext_def split: option.splits)

lemma get_name_Inr_iff:
  "get_name w obj log = (Inr n, log') \<longleftrightarrow> name_attr w obj = Some n \<and> log' = log"
  by (auto simp: get_name_def split: option.splits)

lemma import_class_Inr_iff:
  "import_class w p c log = (Inr pc, log') \<longleftrightarrow>
     p = PStr (fst pc) \<and> c = PStr (snd pc) \<and> find_class w (fst pc) (snd pc) = None \<and> log' = log"
  by (cases "(w, p, c)" rule: import_class.cases) (auto split: option.splits)

lemmas act_Inr_iffs = bnd_Inr_iff get_Inr_iff contains_Inr_iff new_object_Inr_iff
  call_method_Inr_iff ext_Inr_iff get_name_Inr_iff import_class_Inr_iff

lemma py_getitem_Inr_iff:
  "py_getitem v k = Inr x \<longleftrightarrow> (\<exists>d. v = PDict d \<and> py_lookup d k = Some x)"
  by (cases "(v, k)" rule: py_getitem.cases) (auto split: option.splits)

lemma py_setitem_Inr_iff:
  "py_setitem v k x = Inr v' \<longleftrightarrow> (\<exists>d. v = PDict d \<and> v' = PDict (dict_set d k x))"
  by (cases "(v, k, x)" rule: py_setitem.cases) auto

section \<open>Facts about the loaders\<close>

declare py_getitem.simps [simp del] py_setitem.simps [simp del]

lemma set_split_name_Inr:
  assumes "set_split_name cfg s log = (Inr cfg', log')"
  shows "log' = log"
    and "\<exists>ds ps. py_lookup cfg ''dataset'' = Some (PDict ds)
           \<and> py_lookup ds ''params'' = Some (PDict ps)
           \<and> cfg' = dict_set cfg ''dataset''
                 (PDict (dict_set ds ''params'' (PDict (dict_set ps ''split_name'' (PStr s)))))"
  using assms
  by (auto simp: set_split_name_def bnd_Inr_iff get_Inr_iff py_getitem_Inr_iff
        py_setitem_Inr_iff)

lemma set_split_name_other:
  assumes "set_split_name cfg s log = (Inr cfg', log')" and "k \<noteq> ''dataset''"
  shows "py_lookup cfg' k = py_lookup cfg k"
  using set_split_name_Inr(2) [OF assms(1)] assms(2) by auto

lemma set_split_name_env:
  assumes "set_split_name cfg s log = (Inr cfg', log')"
  shows "py_lookup cfg' ''env'' = py_lookup cfg ''env''"
  using assms by (rule set_split_name_other) simp

lemma provider_shuffle_PObj [simp]:
  "provider_shuffle (PObj i p c args kw) = py_lookup kw ''shuffle''"
  by (simp add: provider_shuffle_def)

lemma choose_split_or_env_Inr:
  assumes "choose_split_or_env env cfg s log = (Inr (cfg1, soe), log')"
  shows "log' = log"
    and "if py_lookup cfg ''env'' \<noteq> None
         then set_split_name cfg s log = (Inr cfg1, log) \<and> env = Some soe
         else cfg1 = cfg \<and> soe = PStr s"
proof -
  show "log' = log"
    using assms
    by (auto simp: choose_split_or_env_def bnd_Inr_iff split: if_splits option.splits
          dest: set_split_name_Inr(1))
  show "if py_lookup cfg ''env'' \<noteq> None
         then set_split_name cfg s log = (Inr cfg1, log) \<and> env = Some soe
         else cfg1 = cfg \<and> soe = PStr s"
    using assms
    by (auto simp: choose_split_or_env_def bnd_Inr_iff split: if_splits option.splits
          dest: set_split_name_Inr(1))
qed

lemma load_provider_Inr:
  assumes "load_provider w cfg s soe device log = (Inr provider, log')"
  shows "provider_shuffle provider = Some (PBool (s = ''train'' \<and> py_lookup cfg ''env'' = None))"
  using assms
  by (auto simp: load_provider_def bnd_Inr_iff new_object_Inr_iff)

lemma load_providers_loop_Cons_Inr:
  assumes "load_providers_loop w env device (s # rest) cfg provs log = (Inr r, log')"
  shows "\<exists>cfg1 provider log1.
           (if py_lookup cfg ''env'' \<noteq> None
            then set_split_name cfg s log = (Inr cfg1, log) else cfg1 = cfg)
         \<and> provider_shuffle provider =
             Some (PBool (s = ''train'' \<and> py_lookup cfg1 ''env'' = None))
         \<and> load_providers_loop w env device rest cfg1 (dict_set provs s provider) log1
             = (Inr r, log')"
proof -
  from assms obtain cfg1 soe log0 provider log1 where
    pre: "choose_split_or_env env cfg s log = (Inr (cfg1, soe), log0)"
    and prov: "load_provider w cfg1 s soe device log0 = (Inr provider, log1)"
    and rest: "load_providers_loop w env device rest cfg1 (dict_set provs s provider) log1
             = (Inr r, log')"
    by (auto simp: bnd_Inr_iff)
  from choose_split_or_env_Inr(2) [OF pre]
  have "if py_lookup cfg ''env'' \<noteq> None
            then set_split_name cfg s log = (Inr cfg1, log) else cfg1 = cfg"
    by (simp split: if_splits)
  with load_provider_Inr [OF prov] rest show ?thesis by blast
qed

lemma load_providers_loop_env:
  "load_providers_loop w env device splits cfg provs log = (Inr (cfg', provs'), log') \<Longrightarrow>
   k \<noteq> ''dataset'' \<Longrightarrow> py_lookup cfg' k = py_lookup cfg k"
proof (induction splits arbitrary: cfg provs log)
  case Nil
  then show ?case by simp
next
  case (Cons s rest)
  from load_providers_loop_Cons_Inr [OF Cons.prems(1)] obtain cfg1 provider log1 where
    c: "if py_lookup cfg ''env'' \<noteq> None
            then set_split_name cfg s log = (Inr cfg1, log) else cfg1 = cfg"
    and r: "load_providers_loop w env device rest cfg1 (dict_set provs s provider) log1
             = (Inr (cfg', provs'), log')"
    by blast
  from c Cons.prems(2) have "py_lookup cfg1 k = py_lookup cfg k"
    by (auto split: if_splits dest: set_split_name_other)
  with Cons.IH [OF r Cons.prems(2)] show ?case by simp
qed

lemma load_providers_loop_shuffle:
  "load_providers_loop w env device splits cfg provs log = (Inr (cfg', provs'), log') \<Longrightarrow>
   py_lookup provs' s = Some p \<Longrightarrow>
   (if s \<in> set splits
    then provider_shuffle p = Some (PBool (s = ''train'' \<and> py_lookup cfg ''env'' = None))
    else py_lookup provs s = Some p)"
proof (induction splits arbitrary: cfg provs log)
  case Nil
  then show ?case by simp
next
  case (Cons s' rest)
  from load_providers_loop_Cons_Inr [OF Cons.prems(1)] obtain cfg1 provider log1 where
    c: "if py_lookup cfg ''env'' \<noteq> None
            then set_split_name cfg s' log = (Inr cfg1, log) else cfg1 = cfg"
    and sh: "provider_shuffle provider =
             Some (PBool (s' = ''train'' \<and> py_lookup cfg1 ''env'' = None))"
    and r: "load_providers_loop w env device rest cfg1 (dict_set provs s' provider) log1
             = (Inr (cfg', provs'), log')"
    by blast
  from c have env: "py_lookup cfg1 ''env'' = py_lookup cfg ''env''"
    by (auto split: if_splits dest: set_split_name_env)
  from Cons.IH [OF r Cons.prems(2)] sh env show ?case
    by (auto split: if_splits)
qed

lemma load_providers_loop_keys:
  "load_providers_loop w env device splits cfg provs log = (Inr (cfg', provs'), log') \<Longrightarrow>
   fst ` set provs' = fst ` set provs \<union> set splits
   \<and> (distinct (map fst provs) \<longrightarrow> distinct (map fst provs'))"
proof (induction splits arbitrary: cfg provs log)
  case Nil
  then show ?case by simp
next
  case (Cons s' rest)
  from load_providers_loop_Cons_Inr [OF Cons.prems(1)] obtain cfg1 provider log1 where
    r: "load_providers_loop w env device rest cfg1 (dict_set provs s' provider) log1
             = (Inr (cfg', provs'), log')"
    by blast
  have "fst ` set (dict_set provs s' provider) = insert s' (fst ` set provs)"
    using keys_dict_set [of provs s' provider, THEN arg_cong, of set] by auto
  with Cons.IH [OF r] show ?case
    by (auto simp: distinct_dict_set)
qed

lemma py_lookup_None_iff: "py_lookup d k = None \<longleftrightarrow> k \<notin> fst ` set d"
  by (simp add: py_lookup_def map_of_eq_None_iff)

lemma returns_Inr: "returns m log \<Longrightarrow> \<exists>x log'. m log = (Inr x, log')"
  by (cases "m log"; cases "fst (m log)") (auto simp: returns_def)

lemma load_providers_from_config_Inr:
  assumes "load_providers_from_config w cfg splits device log = (Inr (cfg', providers), log')"
  shows "\<exists>env provs log1. load_providers_loop w env device splits cfg [] log1 = (Inr (cfg', provs), log')
           \<and> providers = PDict provs"
  using assms
  by (auto simp: load_providers_from_config_def bnd_Inr_iff)

lemma ExperimentContext_from_config_Inr:
  assumes "ExperimentContext_from_config w cfg splits log = (Inr (cfg2, ctx), log')"
  shows "\<exists>comet callbacks cfg1 device providers log1 log2 log3.
           load_callbacks_from_config w cfg comet log1 = (Inr (cfg1, callbacks), log2)
         \<and> load_device_from_config w cfg1 log2 = (Inr device, log3)
         \<and> load_providers_from_config w cfg1 splits device log3 = (Inr (cfg2, providers), log')
         \<and> ctx = ExperimentContext_init (PDict cfg2) comet device providers callbacks"
  using assms
  apply (clarsimp simp: ExperimentContext_from_config_def bnd_Inr_iff)
  apply blast
  done

lemma ExperimentContext_init_keys:
  "map fst (holder (ExperimentContext_init config comet device providers callbacks)) =
     [''config'', ''comet'', ''device'', ''providers'', ''callbacks'']"
  by (simp add: ExperimentContext_init_def)

lemma ExperimentContext_init_lookup:
  "py_lookup (holder (ExperimentContext_init config comet device providers callbacks)) k =
     py_lookup [(''config'', config), (''comet'', comet), (''device'', device),
                (''providers'', providers), (''callbacks'', callbacks)] k"
  by (simp add: ExperimentContext_init_def)

lemma py_in_Inr_cases:
  assumes "py_in k v = Inr b"
  shows "(\<exists>d. v = PDict d \<and> b = (py_lookup d k \<noteq> None))
       \<or> (\<forall>k'. dict_entry v k' = None \<and> py_getitem v k' = Inl TypeError)"
  using assms by (cases v) (auto simp: py_getitem.simps)

lemma registry_getitem_Inr:
  "registry_getitem reg ref = Inr x \<Longrightarrow> \<exists>n. ref = PStr n \<and> py_lookup reg n = Some x"
  by (cases ref) (auto split: option.splits)

lemma registry_getitems_Inr:
  "registry_getitems reg refs = Inr objs \<Longrightarrow>
   list_all2 (\<lambda>ref x. \<exists>n. ref = PStr n \<and> py_lookup reg n = Some x) refs objs"
proof (induction refs arbitrary: objs)
  case Nil
  then show ?case by simp
next
  case (Cons ref refs)
  then show ?case
    by (auto split: sum.splits dest: registry_getitem_Inr)
qed

lemma resolve_metrics_Inr:
  assumes "resolve_metrics reg c log = (Inr c', log')"
  shows "log' = log"
    and "case config_path c [''kwargs'', ''metrics''] of
           None \<Rightarrow> c' = c
         | Some ms \<Rightarrow>
             (\<exists>d kw refs objs. c = PDict d \<and> py_lookup d ''kwargs'' = Some (PDict kw)
                \<and> py_iter ms = Inr refs \<and> registry_getitems reg refs = Inr objs
                \<and> c' = PDict (dict_set d ''kwargs'' (PDict (dict_set kw ''metrics'' (PList objs)))))"
proof -
  from assms obtain b where b: "py_in ''kwargs'' c = Inr b"
    by (auto simp: resolve_metrics_def act_Inr_iffs)
  show "log' = log"
    using assms
    by (auto simp: resolve_metrics_def act_Inr_iffs split: if_splits)
  show "case config_path c [''kwargs'', ''metrics''] of
           None \<Rightarrow> c' = c
         | Some ms \<Rightarrow>
             (\<exists>d kw refs objs. c = PDict d \<and> py_lookup d ''kwargs'' = Some (PDict kw)
                \<and> py_iter ms = Inr refs \<and> registry_getitems reg refs = Inr objs
                \<and> c' = PDict (dict_set d ''kwargs'' (PDict (dict_set kw ''metrics'' (PList objs)))))"
  proof (cases "\<exists>kwv. dict_entry c ''kwargs'' = Some kwv")
    case False
    with py_in_Inr_cases [OF b] assms show ?thesis
      by (auto simp: resolve_metrics_def act_Inr_iffs split: if_splits)
  next
    case True
    then obtain kwv where kwv: "dict_entry c ''kwargs'' = Some kwv" by blast
    with py_in_Inr_cases [OF b] obtain d where d: "c = PDict d" "py_lookup d ''kwargs'' = Some kwv"
      by auto
    with assms obtain b2 where b2: "py_in ''metrics'' kwv = Inr b2"
      by (auto simp: resolve_metrics_def act_Inr_iffs py_getitem_Inr_iff)
    show ?thesis
    proof (cases "\<exists>ms. dict_entry kwv ''metrics'' = Some ms")
      case False
      with py_in_Inr_cases [OF b2] assms d show ?thesis
        by (auto simp: resolve_metrics_def act_Inr_iffs py_getitem_Inr_iff split: if_splits)
    next
      case True
      then obtain ms where ms: "dict_entry kwv ''metrics'' = Some ms" by blast
      with py_in_Inr_cases [OF b2] obtain kw where
        kw: "kwv = PDict kw" "py_lookup kw ''metrics'' = Some ms" by auto
      with assms d show ?thesis
        by (auto simp: resolve_metrics_def act_Inr_iffs py_getitem_Inr_iff py_setitem_Inr_iff)
    qed
  qed
qed

lemma load_callback_dynamically_Inr:
  assumes "load_callback_dynamically w p c comet k log = (Inr clb, log')"
  shows "\<exists>pn cn args kw. p = PStr pn \<and> c = PStr cn
           \<and> clb = PObj (length log) pn cn args kw
           \<and> (args = [comet] \<or> args = [])
           \<and> (k = PDict kw \<or> k = PNone \<and> kw = [])
           \<and> log' = log @ [New clb]"
  using assms
  by (cases k)
     (auto simp: load_callback_dynamically_def act_Inr_iffs Let_def split: if_splits)

lemma load_callback_Inr:
  assumes "load_callback w c comet log = (Inr clb, log')"
  shows "\<exists>pn cn args kw.
             dict_entry c ''package'' = Some (PStr pn)
           \<and> dict_entry c ''class'' = Some (PStr cn)
           \<and> clb = PObj (length log) pn cn args kw
           \<and> (args = [comet] \<or> args = [])
           \<and> (dict_entry c ''kwargs'' = Some (PDict kw)
               \<or> kw = [] \<and> (dict_entry c ''kwargs'' = None \<or> dict_entry c ''kwargs'' = Some PNone))
           \<and> log' = log @ [New clb]"
proof -
  from assms obtain b where b: "py_in ''kwargs'' c = Inr b"
    by (auto simp: load_callback_def act_Inr_iffs)
  from assms obtain d where d: "c = PDict d"
    by (auto simp: load_callback_def act_Inr_iffs py_getitem_Inr_iff)
  with b have b': "b = (py_lookup d ''kwargs'' \<noteq> None)" by simp
  show ?thesis
  proof (cases b)
    case True
    with assms d b' show ?thesis
      by (auto simp: load_callback_def act_Inr_iffs py_getitem_Inr_iff
            dest!: load_callback_dynamically_Inr)
  next
    case False
    with assms d b' show ?thesis
      by (auto simp: load_callback_def act_Inr_iffs py_getitem_Inr_iff
            dest!: load_callback_dynamically_Inr)
  qed
qed

lemma load_callbacks_loop_Cons_Inr:
  assumes "load_callbacks_loop w comet (c # rest) reg log = (Inr (cs', reg'), log')"
  shows "\<exists>c1 clb name rest'.
           resolve_metrics reg c log = (Inr c1, log)
         \<and> load_callback w c1 comet log = (Inr clb, log @ [New clb])
         \<and> name_attr w clb = Some name
         \<and> load_callbacks_loop w comet rest (registry_setitem reg name clb) (log @ [New clb])
             = (Inr (rest', reg'), log')
         \<and> cs' = c1 # rest'"
proof -
  from assms obtain c1 l1 clb l2 name l3 rest' where
    a: "resolve_metrics reg c log = (Inr c1, l1)"
    and b: "load_callback w c1 comet l1 = (Inr clb, l2)"
    and c: "get_name w clb l2 = (Inr name, l3)"
    and d: "load_callbacks_loop w comet rest (registry_setitem reg name clb) l3
             = (Inr (rest', reg'), log')"
    and e: "cs' = c1 # rest'"
    by (auto simp: bnd_Inr_iff)
  from resolve_metrics_Inr(1) [OF a] have l1: "l1 = log" .
  from load_callback_Inr [OF b] l1 have l2: "l2 = log @ [New clb]" by auto
  from c have l3: "l3 = l2" and n: "name_attr w clb = Some name"
    by (auto simp: get_name_Inr_iff)
  from a b d e l1 l2 l3 n show ?thesis by auto
qed

lemma in_dict_set: "x \<in> set (dict_set d k v) \<Longrightarrow> x = (k, v) \<or> x \<in> set d"
  by (induction d) (auto split: if_splits)

lemma values_dict_set: "y \<in> snd ` set (dict_set d k v) \<Longrightarrow> y = v \<or> y \<in> snd ` set d"
  by (auto dest!: in_dict_set)

lemma py_lookup_Some_values: "py_lookup d k = Some v \<Longrightarrow> v \<in> snd ` set d"
  by (auto simp: py_lookup_def dest!: map_of_SomeD intro: rev_image_eqI)

lemma registry_getitems_resolve:
  assumes "\<forall>n. py_lookup reg n = registered w prior n"
  shows "registry_getitems reg refs = Inr objs \<Longrightarrow>
         those (map (resolve_ref w prior) refs) = Some objs"
proof (induction refs arbitrary: objs)
  case Nil
  then show ?case by simp
next
  case (Cons ref refs)
  from Cons.prems obtain x xs where
    x: "registry_getitem reg ref = Inr x"
    and xs: "registry_getitems reg refs = Inr xs"
    and objs: "objs = x # xs"
    by (auto split: sum.splits)
  from registry_getitem_Inr [OF x] assms have "resolve_ref w prior ref = Some x"
    by auto
  with Cons.IH [OF xs] objs show ?case by simp
qed

lemma resolve_metrics_resolved:
  assumes "resolve_metrics reg c log0 = (Inr c1, log1)"
    and "\<forall>n. py_lookup reg n = registered w prior n"
  shows "metrics_resolved w prior c c1"
proof (cases "config_path c [''kwargs'', ''metrics'']")
  case None
  with resolve_metrics_Inr(2) [OF assms(1)] show ?thesis
    by (simp add: metrics_resolved_def)
next
  case (Some ms)
  with resolve_metrics_Inr(2) [OF assms(1)] obtain d kw refs objs where
    c: "c = PDict d" and kw: "py_lookup d ''kwargs'' = Some (PDict kw)"
    and it: "py_iter ms = Inr refs"
    and r: "registry_getitems reg refs = Inr objs"
    and c1: "c1 = PDict (dict_set d ''kwargs'' (PDict (dict_set kw ''metrics'' (PList objs))))"
    by auto
  from c kw c1 have "c1 = set_metrics c objs"
    by (simp add: set_metrics_def)
  with Some it registry_getitems_resolve [OF assms(2) r] show ?thesis
    by (simp add: metrics_resolved_def)
qed

lemma registered_snoc:
  assumes "name_attr w x = Some name"
  shows "registered w (prior @ [x]) n = (if n = name then Some x else registered w prior n)"
  using assms by (auto simp: registered_def)

lemma load_callbacks_loop_resolved:
  "load_callbacks_loop w comet cs reg log = (Inr (cs', reg'), log') \<Longrightarrow>
   \<forall>n. py_lookup reg n = registered w prior n \<Longrightarrow>
   \<exists>insts. callbacks_resolved w prior cs cs' insts \<and> log' = log @ map New insts"
proof (induction cs arbitrary: reg log cs' prior)
  case Nil
  then have "callbacks_resolved w prior [] cs' [] \<and> log' = log @ map New []" by auto
  then show ?case by blast
next
  case (Cons c rest)
  from load_callbacks_loop_Cons_Inr [OF Cons.prems(1)] obtain c1 clb name rest' where
    a: "resolve_metrics reg c log = (Inr c1, log)"
    and n: "name_attr w clb = Some name"
    and d: "load_callbacks_loop w comet rest (registry_setitem reg name clb) (log @ [New clb])
             = (Inr (rest', reg'), log')"
    and e: "cs' = c1 # rest'"
    by blast
  have inv: "\<forall>k. py_lookup (registry_setitem reg name clb) k = registered w (prior @ [clb]) k"
    using Cons.prems(2) by (simp add: registry_setitem_def registered_snoc [OF n])
  from Cons.IH [OF d inv] obtain insts where
    ih: "callbacks_resolved w (prior @ [clb]) rest rest' insts"
    and l: "log' = (log @ [New clb]) @ map New insts"
    by blast
  from resolve_metrics_resolved [OF a Cons.prems(2)] ih e l
  have "callbacks_resolved w prior (c # rest) cs' (clb # insts)
        \<and> log' = log @ map New (clb # insts)"
    by simp
  then show ?case by blast
qed

lemma load_callbacks_from_config_resolved:
  assumes "load_callbacks_from_config w cfg comet log = (Inr (cfg1, callbacks), log1)"
    and "py_lookup cfg ''callbacks'' = Some (PList cs)"
  shows "\<exists>cs' insts. py_lookup cfg1 ''callbacks'' = Some (PList cs')
           \<and> callbacks_resolved w [] cs cs' insts
           \<and> log1 = log @ map New insts"
proof -
  from assms obtain cs' reg' where
    loop: "load_callbacks_loop w comet cs [] log = (Inr (cs', reg'), log1)"
    and cfg1: "cfg1 = dict_set cfg ''callbacks'' (PList cs')"
    by (auto simp: load_callbacks_from_config_def bnd_Inr_iff get_PDict)
  have "\<forall>n. py_lookup [] n = registered w [] n" by (simp add: registered_def)
  from load_callbacks_loop_resolved [OF loop this] cfg1 show ?thesis by auto
qed

lemma load_callbacks_from_config_not_list:
  assumes "load_callbacks_from_config w cfg comet log = (Inr (cfg1, callbacks), log1)"
    and "\<forall>cs. py_lookup cfg ''callbacks'' \<noteq> Some (PList cs)"
  shows "cfg1 = cfg"
proof (cases "py_lookup cfg ''callbacks''")
  case None
  with assms show ?thesis
    by (auto simp: load_callbacks_from_config_def bnd_Inr_iff)
next
  case (Some v)
  with assms show ?thesis
    by (cases v)
       (auto simp: load_callbacks_from_config_def bnd_Inr_iff get_Inr_iff py_getitem_Inr_iff)
qed

lemma dict_set_twice: "dict_set (dict_set d k a) k b = dict_set d k b"
  by (induction d) auto

lemma load_providers_loop_no_env:
  "load_providers_loop w env device splits cfg provs log = (Inr (cfg', provs'), log') \<Longrightarrow>
   py_lookup cfg ''env'' = None \<Longrightarrow> cfg' = cfg"
proof (induction splits arbitrary: provs log)
  case Nil
  then show ?case by simp
next
  case (Cons s rest)
  from load_providers_loop_Cons_Inr [OF Cons.prems(1)] Cons.prems(2)
  obtain provider log1 where
    r: "load_providers_loop w env device rest cfg (dict_set provs s provider) log1
             = (Inr (cfg', provs'), log')"
    by auto
  from Cons.IH [OF r Cons.prems(2)] show ?case .
qed

lemma load_providers_loop_dataset_section:
  "load_providers_loop w env device splits cfg provs log = (Inr (cfg', provs'), log') \<Longrightarrow>
   py_lookup cfg ''env'' \<noteq> None \<Longrightarrow> splits \<noteq> [] \<Longrightarrow>
   \<exists>ds ps. py_lookup cfg ''dataset'' = Some (PDict ds)
         \<and> py_lookup ds ''params'' = Some (PDict ps)
         \<and> cfg' = dict_set cfg ''dataset''
                  (PDict (dict_set ds ''params''
                     (PDict (dict_set ps ''split_name'' (PStr (last splits))))))"
proof (induction splits arbitrary: cfg provs log)
  case Nil
  then show ?case by simp
next
  case (Cons s rest)
  from load_providers_loop_Cons_Inr [OF Cons.prems(1)] Cons.prems(2)
  obtain cfg1 provider log1 where
    c: "set_split_name cfg s log = (Inr cfg1, log)"
    and r: "load_providers_loop w env device rest cfg1 (dict_set provs s provider) log1
             = (Inr (cfg', provs'), log')"
    by auto
  from set_split_name_Inr(2) [OF c] obtain ds ps where
    ds: "py_lookup cfg ''dataset'' = Some (PDict ds)"
    and ps: "py_lookup ds ''params'' = Some (PDict ps)"
    and cfg1: "cfg1 = dict_set cfg ''dataset''
                 (PDict (dict_set ds ''params'' (PDict (dict_set ps ''split_name'' (PStr s)))))"
    by blast
  from set_split_name_env [OF c] Cons.prems(2) have env: "py_lookup cfg1 ''env'' \<noteq> None"
    by simp
  show ?case
  proof (cases "rest = []")
    case True
    with r have "cfg' = cfg1" by simp
    with ds ps cfg1 True show ?thesis by simp
  next
    case False
    from Cons.IH [OF r env False] obtain ds1 ps1 where
      ds1: "py_lookup cfg1 ''dataset'' = Some (PDict ds1)"
      and ps1: "py_lookup ds1 ''params'' = Some (PDict ps1)"
      and cfg': "cfg' = dict_set cfg1 ''dataset''
                  (PDict (dict_set ds1 ''params''
                     (PDict (dict_set ps1 ''split_name'' (PStr (last rest))))))"
      by blast
    from ds1 cfg1 have "ds1 = dict_set ds ''params'' (PDict (dict_set ps ''split_name'' (PStr s)))"
      by simp
    moreover from this ps1 have "ps1 = dict_set ps ''split_name'' (PStr s)" by simp
    ultimately have "cfg' = dict_set cfg ''dataset''
                  (PDict (dict_set ds ''params''
                     (PDict (dict_set ps ''split_name'' (PStr (last rest))))))"
      using cfg' cfg1 by (simp add: dict_set_twice)
    with ds ps False show ?thesis by simp
  qed
qed


lemma resolve_metrics_other_entry:
  assumes "resolve_metrics reg c log = (Inr c', log')" and "k \<noteq> ''kwargs''"
  shows "dict_entry c' k = dict_entry c k"
  using resolve_metrics_Inr(2) [OF assms(1)] assms(2)
  by (auto split: option.splits)

lemma registry_getitems_single:
  assumes "registry_getitems [(n, a)] refs = Inr objs"
  shows "objs = map (\<lambda>ref. a) refs \<and> list_all (\<lambda>ref. ref = PStr n) refs"
  using registry_getitems_Inr [OF assms]
  by (induction refs objs rule: list_all2_induct) (auto split: if_splits)

lemma load_callbacks_from_config_other:
  assumes "load_callbacks_from_config w cfg comet log = (Inr (cfg1, callbacks), log1)"
    and "k \<noteq> ''callbacks''"
  shows "py_lookup cfg1 k = py_lookup cfg k"
proof (cases "py_lookup cfg ''callbacks''")
  case None
  with assms show ?thesis
    by (auto simp: load_callbacks_from_config_def bnd_Inr_iff)
next
  case (Some v)
  with assms show ?thesis
    by (cases v)
       (auto simp: load_callbacks_from_config_def bnd_Inr_iff get_Inr_iff py_getitem_Inr_iff)
qed

lemma load_dataset_from_config_log:
  assumes "load_dataset_from_config w dc task soe device log = (Inr ds, log')"
  shows "log' = log @ [New ds]"
  using assms
  by (auto simp: load_dataset_from_config_def load_dataset_dynamically_def act_Inr_iffs
        split: if_splits)

lemma load_provider_log:
  assumes "load_provider w cfg s soe device log = (Inr provider, log')"
  shows "set log \<subseteq> set log'"
  using assms
  by (auto simp: load_provider_def bnd_Inr_iff new_object_Inr_iff get_Inr_iff
        dest!: load_dataset_from_config_log)

lemma load_providers_loop_log:
  "load_providers_loop w env device splits cfg provs log = (Inr r, log') \<Longrightarrow>
   set log \<subseteq> set log'"
proof (induction splits arbitrary: cfg provs log)
  case Nil
  then show ?case by auto
next
  case (Cons s rest)
  from Cons.prems obtain cfg1 soe log0 provider log1 where
    pre: "choose_split_or_env env cfg s log = (Inr (cfg1, soe), log0)"
    and prov: "load_provider w cfg1 s soe device log0 = (Inr provider, log1)"
    and rest: "load_providers_loop w env device rest cfg1 (dict_set provs s provider) log1
             = (Inr r, log')"
    by (auto simp: bnd_Inr_iff)
  from choose_split_or_env_Inr(1) [OF pre] load_provider_log [OF prov] Cons.IH [OF rest]
  show ?case by auto
qed

lemma load_env_from_config_log:
  assumes "load_env_from_config w ec task s device log = (Inr env, log')"
  shows "log' = log @ [New env]"
  using assms
  by (auto simp: load_env_from_config_def load_env_dynamically_def act_Inr_iffs
        split: if_splits)

lemma load_providers_from_config_log:
  assumes "load_providers_from_config w cfg splits device log = (Inr r, log')"
  shows "set log \<subseteq> set log'"
  using assms
  by (auto simp: load_providers_from_config_def bnd_Inr_iff get_Inr_iff split: if_splits
        dest!: load_providers_loop_log load_env_from_config_log)

lemma load_device_from_config_log:
  assumes "load_device_from_config w cfg log = (Inr d, log')"
  shows "log' = log"
  using assms
  by (auto simp: load_device_from_config_def act_Inr_iffs split: if_splits)

lemma set_split_name_path:
  assumes "set_split_name cfg s log = (Inr cfg', log')"
  shows "config_path (PDict cfg') [''dataset'', ''params'', ''split_name''] = Some (PStr s)"
  using set_split_name_Inr(2) [OF assms] by auto

lemma load_providers_loop_split_name:
  "load_providers_loop w env device splits cfg provs log = (Inr (cfg', provs'), log') \<Longrightarrow>
   py_lookup cfg ''env'' \<noteq> None \<Longrightarrow> splits \<noteq> [] \<Longrightarrow>
   config_path (PDict cfg') [''dataset'', ''params'', ''split_name''] = Some (PStr (last splits))"
proof (induction splits arbitrary: cfg provs log)
  case Nil
  then show ?case by simp
next
  case (Cons s rest)
  from load_providers_loop_Cons_Inr [OF Cons.prems(1)] Cons.prems(2)
  obtain cfg1 provider log1 where
    c: "set_split_name cfg s log = (Inr cfg1, log)"
    and r: "load_providers_loop w env device rest cfg1 (dict_set provs s provider) log1
             = (Inr (cfg', provs'), log')"
    by auto
  from set_split_name_env [OF c] Cons.prems(2) have env: "py_lookup cfg1 ''env'' \<noteq> None"
    by simp
  show ?case
  proof (cases "rest = []")
    case True
    with r have "cfg' = cfg1" by simp
    with set_split_name_path [OF c] True show ?thesis by simp
  next
    case False
    with Cons.IH [OF r env] show ?thesis by simp
  qed
qed

lemma ExperimentContext_from_config_other:
  assumes "ExperimentContext_from_config w cfg splits log = (Inr (cfg2, ctx), log')"
    and "k \<noteq> ''callbacks''" and "k \<noteq> ''dataset''"
  shows "py_lookup cfg2 k = py_lookup cfg k"
proof -
  from ExperimentContext_from_config_Inr [OF assms(1)]
  obtain comet callbacks cfg1 device providers log1 log2 log3 where
    cb: "load_callbacks_from_config w cfg comet log1 = (Inr (cfg1, callbacks), log2)"
    and prov: "load_providers_from_config w cfg1 splits device log3 =
             (Inr (cfg2, providers), log')"
    by blast
  from load_providers_from_config_Inr [OF prov] obtain env provs log4 where
    loop: "load_providers_loop w env device splits cfg1 [] log4 = (Inr (cfg2, provs), log')"
    by blast
  from load_providers_loop_env [OF loop assms(3)] load_callbacks_from_config_other [OF cb assms(2)]
  show ?thesis by simp
qed

lemma ExperimentContext_from_config_holder:
  assumes "ExperimentContext_from_config w cfg splits log = (Inr (cfg2, ctx), log')"
  shows "map fst (holder ctx) = [''config'', ''comet'', ''device'', ''providers'', ''callbacks'']"
  using ExperimentContext_from_config_Inr [OF assms]
  by (auto simp: ExperimentContext_init_keys)

lemma TrainingContext_init_epoch_start:
  assumes "map fst (holder ec) = [''config'', ''comet'', ''device'', ''providers'', ''callbacks'']"
  shows "py_lookup (holder (TrainingContext_init ec model optimizer loss_fn step_fn
            epoch_start savers)) ''epoch_start'' = Some epoch_start"
proof -
  from assms have d: "distinct (map fst (holder ec))" by simp
  from assms have "''epoch_start'' \<notin> fst ` set (holder ec)"
    using image_set [of fst "holder ec"] by simp
  then have "py_lookup (holder ec) ''epoch_start'' = None"
    by (simp add: py_lookup_None_iff)
  with d show ?thesis
    by (simp add: TrainingContext_init_def py_lookup_dict_merge)
qed

lemma resume_flag_Inr:
  assumes "resume_flag (PDict params) log = (Inr flag, log')"
  shows "flag = (case py_lookup params ''resume'' of None \<Rightarrow> PBool False | Some v \<Rightarrow> v)"
  using assms
  by (auto simp: resume_flag_def act_Inr_iffs PARAM_RESUME_def py_getitem_Inr_iff
        split: if_splits)

lemma resume_from_checkpoint_Inr:
  assumes "resume_from_checkpoint w cfg ec model log = (Inr (epoch_start, ckpt), log')"
  shows "\<exists>params path cp_epoch.
           py_lookup cfg ''params'' = Some params
         \<and> py_getitem params ''resume_checkpoint_path'' = Inr path
         \<and> load_checkpoint_from_path w path = Inr ckpt
         \<and> py_getitem ckpt ''cp-epoch'' = Inr cp_epoch
         \<and> py_add1 cp_epoch = Inr epoch_start"
  using assms
  by (auto simp: resume_from_checkpoint_def bnd_Inr_iff get_Inr_iff py_getitem_Inr_iff)

lemma load_model_from_config_Inr:
  assumes "load_model_from_config w model_config task log = (Inr model, log')"
  shows "\<exists>pkg cls.
           py_getitem model_config ''package'' = Inr (PStr pkg)
         \<and> py_getitem model_config ''class'' = Inr (PStr cls)
         \<and> model = PObj (length log) pkg cls
                      (task # (case dict_entry model_config ''params'' of
                                 None \<Rightarrow> []
                               | Some p \<Rightarrow> if p = PNone then [] else [p])) []
         \<and> log' = log @ [New model]"
proof -
  from assms obtain d where d: "model_config = PDict d"
    by (auto simp: load_model_from_config_def act_Inr_iffs py_getitem_Inr_iff)
  show ?thesis
    using assms unfolding d
    by (cases "py_lookup d ''params''")
       (auto simp: load_model_from_config_def load_model_dynamically_def act_Inr_iffs
          py_getitem_Inr_iff split: if_splits)
qed

lemma PredictionContext_init_model:
  assumes "map fst (holder ec) = [''config'', ''comet'', ''device'', ''providers'', ''callbacks'']"
  shows "py_lookup (holder (PredictionContext_init ec model)) ''model'' = Some model"
proof -
  from assms have d: "distinct (map fst (holder ec))" by simp
  from assms have "''model'' \<notin> fst ` set (holder ec)"
    using image_set [of fst "holder ec"] by simp
  then have "py_lookup (holder ec) ''model'' = None"
    by (simp add: py_lookup_None_iff)
  with d show ?thesis
    by (simp add: PredictionContext_init_def py_lookup_dict_merge)
qed

lemma load_dataset_from_config_Inr:
  assumes "load_dataset_from_config w (PDict dc) task soe device log = (Inr ds, log')"
  shows "\<exists>pkg cls. ds = PObj (length log) pkg cls
            [task, soe, (case py_lookup dc ''params'' of None \<Rightarrow> PNone | Some p \<Rightarrow> p), device] []"
  using assms
  by (cases "py_lookup dc ''params''")
     (auto simp: load_dataset_from_config_def load_dataset_dynamically_def act_Inr_iffs
        py_getitem_Inr_iff split: if_splits)

lemma dict_entry_Some_iff:
  "dict_entry v k = Some x \<longleftrightarrow> (\<exists>d. v = PDict d \<and> py_lookup d k = Some x)"
  by (cases v) auto

lemma load_provider_dataset:
  assumes "load_provider w cfg s soe device log = (Inr provider, log')"
    and "config_path (PDict cfg) [''dataset'', ''params'', ''split_name''] = Some v"
  shows "\<exists>i j pkg cls task params kw.
           provider = PObj i ''torch.utils.data.dataloader'' ''DataLoader''
                        [PObj j pkg cls [task, soe, PDict params, device] []] kw
         \<and> py_lookup params ''split_name'' = Some v"
proof -
  from assms(2) obtain dc ps where
    dc: "py_lookup cfg ''dataset'' = Some (PDict dc)"
    and ps: "py_lookup dc ''params'' = Some (PDict ps)"
    and v: "py_lookup ps ''split_name'' = Some v"
    by (auto simp: dict_entry_Some_iff split: option.splits)
  from assms(1) dc obtain task ds l1 l2 where
    "load_dataset_from_config w (PDict dc) task soe device l1 = (Inr ds, l2)"
    and "\<exists>i kw. provider = PObj i ''torch.utils.data.dataloader'' ''DataLoader'' [ds] kw"
    by (auto simp: load_provider_def bnd_Inr_iff get_Inr_iff py_getitem_Inr_iff
          new_object_Inr_iff)
  with load_dataset_from_config_Inr [OF this(1)] ps v show ?thesis
    by auto
qed

lemma load_providers_loop_dataset:
  "load_providers_loop w env device splits cfg provs log = (Inr (cfg', provs'), log') \<Longrightarrow>
   py_lookup cfg ''env'' \<noteq> None \<Longrightarrow>
   py_lookup provs' s = Some p \<Longrightarrow>
   (if s \<in> set splits
    then \<exists>i j pkg cls task e params kw.
           p = PObj i ''torch.utils.data.dataloader'' ''DataLoader''
                 [PObj j pkg cls [task, e, PDict params, device] []] kw
         \<and> env = Some e
         \<and> py_lookup params ''split_name'' = Some (PStr s)
    else py_lookup provs s = Some p)"
proof (induction splits arbitrary: cfg provs log)
  case Nil
  then show ?case by simp
next
  case (Cons s' rest)
  from Cons.prems(1) obtain cfg1 soe log0 provider log1 where
    pre: "choose_split_or_env env cfg s' log = (Inr (cfg1, soe), log0)"
    and prov: "load_provider w cfg1 s' soe device log0 = (Inr provider, log1)"
    and rest: "load_providers_loop w env device rest cfg1 (dict_set provs s' provider) log1
             = (Inr (cfg', provs'), log')"
    by (auto simp: bnd_Inr_iff)
  from choose_split_or_env_Inr(2) [OF pre] Cons.prems(2)
  have set: "set_split_name cfg s' log = (Inr cfg1, log)" and env: "env = Some soe"
    by simp_all
  from set_split_name_env [OF set] Cons.prems(2) have env1: "py_lookup cfg1 ''env'' \<noteq> None"
    by simp
  from load_provider_dataset [OF prov set_split_name_path [OF set]] env
  have here: "\<exists>i j pkg cls task e params kw.
           provider = PObj i ''torch.utils.data.dataloader'' ''DataLoader''
                 [PObj j pkg cls [task, e, PDict params, device] []] kw
         \<and> env = Some e
         \<and> py_lookup params ''split_name'' = Some (PStr s')"
    by blast
  show ?case
  proof (cases "s \<in> set rest")
    case True
    with Cons.IH [OF rest env1 Cons.prems(3)] show ?thesis by simp
  next
    case False
    with Cons.IH [OF rest env1 Cons.prems(3)]
    have "py_lookup (dict_set provs s' provider) s = Some p" by simp
    with here False show ?thesis
      by (auto split: if_splits)
  qed
qed

text \<open>Plain configurations in a quiet world are accepted.\<close>

lemma returns_ret [simp]: "returns (ret x) log"
  by (simp add: returns_def)

lemma returns_bnd:
  assumes "m log = (Inr x, log')" and "returns (f x) log'"
  shows "returns (bnd m f) log"
  using assms by (simp add: returns_def bnd_def)

lemma returns_bndI:
  assumes "returns m log" and "\<And>x log'. m log = (Inr x, log') \<Longrightarrow> returns (f x) log'"
  shows "returns (bnd m f) log"
proof -
  from returns_Inr [OF assms(1)] obtain x log' where "m log = (Inr x, log')" by blast
  with assms(2) show ?thesis by (auto intro: returns_bnd)
qed

lemma is_dict_iff: "is_dict v \<longleftrightarrow> (\<exists>d. v = PDict d)"
  by (cases v) auto

lemma is_str_iff: "is_str v \<longleftrightarrow> (\<exists>s. v = PStr s)"
  by (cases v) auto

lemma quiet_new_object:
  "quiet_world w \<Longrightarrow>
   new_object w p c args kw log =
     (Inr (PObj (length log) p c args kw), log @ [New (PObj (length log) p c args kw)])"
  by (simp add: quiet_world_def new_object_def Let_def)

lemma quiet_call_method:
  "quiet_world w \<Longrightarrow>
   call_method w obj m args kw log = (Inr (PRes (length log) m), log @ [Call obj m args kw])"
  by (simp add: quiet_world_def call_method_def)

lemma quiet_ext: "quiet_world w \<Longrightarrow> ext w ev log = (Inr (), log @ [ev])"
  by (simp add: quiet_world_def ext_def)

lemma quiet_import_class:
  "quiet_world w \<Longrightarrow> import_class w (PStr p) (PStr c) log = (Inr (p, c), log)"
  by (simp add: quiet_world_def)

lemma get_present: "py_lookup d k = Some v \<Longrightarrow> get (PDict d) k log = (Inr v, log)"
  by (simp add: get_PDict)

lemma contains_dict: "contains k (PDict d) log = (Inr (py_lookup d k \<noteq> None), log)"
  by (simp add: contains_PDict)

lemma quiet_find_class: "quiet_world w \<Longrightarrow> find_class w p c = None"
  by (simp add: quiet_world_def)

lemmas quiet_simps = quiet_new_object quiet_call_method quiet_ext quiet_find_class
  get_present contains_dict

lemma bnd_apply:
  "bnd m f log = (case m log of (Inl e, l) \<Rightarrow> (Inl e, l) | (Inr x, l) \<Rightarrow> f x l)"
  by (simp add: bnd_def)

text \<open>Optional entries: the value read when the entry may be absent.\<close>

lemma optional_get:
  "bnd (contains k (PDict d)) (\<lambda>b. bnd (if b then get (PDict d) k else ret PNone) f) log =
     f (case py_lookup d k of None \<Rightarrow> PNone | Some v \<Rightarrow> v) log"
  by (cases "py_lookup d k") (simp_all add: bnd_apply contains_dict get_present)

lemma quiet_path_exists:
  "quiet_world w \<Longrightarrow> \<exists>b. path_exists w p = Inr b"
  unfolding quiet_world_def by metis

lemma returns_load_cometml_experiment:
  assumes "quiet_world w"
    and "py_lookup cm ''offline'' = Some offline"
    and "truthy offline \<or> py_lookup cm ''api_key'' \<noteq> None"
  shows "returns (load_cometml_experiment w (PDict cm) name) log"
proof (cases "truthy offline")
  case True
  obtain b where b: "path_exists w (if (case py_lookup cm ''offline_directory'' of
                         None \<Rightarrow> PNone | Some v \<Rightarrow> v) = PNone
                      then PStr (path_join (gettempdir w) ''cometml'')
                      else (case py_lookup cm ''offline_directory'' of
                         None \<Rightarrow> PNone | Some v \<Rightarrow> v)) = Inr b"
    using quiet_path_exists [OF assms(1)] by blast
  show ?thesis
    unfolding load_cometml_experiment_def optional_get
    using assms(1,2) True b
    by (simp add: bnd_apply quiet_simps returns_def Let_def optional_get)
next
  case False
  with assms(3) obtain key where "py_lookup cm ''api_key'' = Some key" by auto
  with False show ?thesis
    unfolding load_cometml_experiment_def optional_get
    using assms(1,2)
    by (simp add: bnd_apply quiet_simps returns_def)
qed


lemma returns_log_prefixed:
  assumes "quiet_world w"
  shows "returns (log_prefixed w comet (PDict d) prefix) log"
  using assms by (simp add: log_prefixed_def bnd_apply quiet_simps returns_def)

lemma returns_log_section_params:
  assumes "quiet_world w"
    and "py_lookup cfg section_name = Some (PDict sec)"
    and "optional_dict (PDict sec) ''params''"
  shows "returns (log_section_params w comet cfg section_name prefix) log"
proof (cases "py_lookup sec ''params''")
  case None
  with assms show ?thesis
    by (simp add: log_section_params_def bnd_apply quiet_simps returns_def)
next
  case (Some ps)
  with assms(3) obtain d where "ps = PDict d"
    by (auto simp: optional_dict_def is_dict_iff)
  with Some assms(1,2) returns_log_prefixed [OF assms(1), of comet d prefix log]
  show ?thesis
    by (simp add: log_section_params_def bnd_apply quiet_simps returns_def)
qed

lemma log_unit: "m log = (Inr (x::unit), log') \<longleftrightarrow> m log = (Inr (), log')"
  by simp

lemma returns_log_config:
  assumes "quiet_world w"
    and "py_lookup cfg ''params'' = Some (PDict ps)"
    and "py_lookup cfg ''model'' = Some (PDict m)" and "optional_dict (PDict m) ''params''"
    and "py_lookup cfg ''dataset'' = Some (PDict ds)" and "optional_dict (PDict ds) ''params''"
    and "py_lookup cfg ''task'' = Some (PDict task)"
  shows "returns (log_config w comet cfg) log"
proof -
  have 1: "returns (if py_lookup cfg ''params'' \<noteq> None
          then bnd (get (PDict cfg) ''params'') (\<lambda>params.
                 log_prefixed w comet params ''exp'')
          else ret ()) l" for l
    using assms(2) returns_log_prefixed [OF assms(1), of comet ps "''exp''" l]
    by (simp add: bnd_apply quiet_simps returns_def)
  have 2: "returns (if py_lookup cfg ''task'' \<noteq> None
     then bnd (get (PDict cfg) ''task'') (\<lambda>task.
            log_prefixed w comet task ''task'')
     else ret ()) l" for l
    using assms(7) returns_log_prefixed [OF assms(1), of comet task "''task''" l]
    by (simp add: bnd_apply quiet_simps returns_def)
  show ?thesis
    unfolding log_config_def
    by (intro returns_bndI 1 2 returns_log_section_params [OF assms(1,3,4)]
          returns_log_section_params [OF assms(1,5,6)])
qed

lemma load_callbacks_plain:
  assumes "quiet_world w" and "py_lookup cfg ''callbacks'' = None"
  shows "\<exists>callbacks log'. load_callbacks_from_config w cfg comet log = (Inr (cfg, callbacks), log')"
proof -
  from assms(1) obtain n where
    "name_attr w (PObj (length log) ''torchexpresso.callbacks.metrics'' ''AverageLossMetric''
       [comet] []) = Some n"
    unfolding quiet_world_def by fastforce
  with assms show ?thesis
    by (simp add: load_callbacks_from_config_def bnd_apply quiet_simps get_name_def)
qed

lemma returns_load_device_from_config:
  assumes "py_lookup cfg ''params'' = Some (PDict ps)"
  shows "returns (load_device_from_config w cfg) log"
  using assms
  by (cases "py_lookup ps ''cpu_only''")
     (simp_all add: load_device_from_config_def bnd_apply quiet_simps returns_def
        PARAM_CPU_ONLY_def)

lemma returns_load_provider:
  assumes "quiet_world w"
    and "py_lookup cfg ''dataset'' = Some (PDict ds)"
    and "py_lookup ds ''package'' = Some (PStr p)" and "py_lookup ds ''class'' = Some (PStr c)"
    and "py_lookup cfg ''task'' = Some task"
    and "py_lookup cfg ''params'' = Some (PDict ps)" and "py_lookup ps ''batch_size'' = Some bs"
  shows "returns (load_provider w cfg s soe device) log"
  using assms
  by (cases "py_lookup ds ''params''")
     (simp_all add: load_provider_def load_dataset_from_config_def
        load_dataset_dynamically_def bnd_apply quiet_simps returns_def)

lemma returns_load_providers_loop:
  assumes "quiet_world w"
    and "py_lookup cfg ''env'' = None"
    and "py_lookup cfg ''dataset'' = Some (PDict ds)"
    and "py_lookup ds ''package'' = Some (PStr p)" and "py_lookup ds ''class'' = Some (PStr c)"
    and "py_lookup cfg ''task'' = Some task"
    and "py_lookup cfg ''params'' = Some (PDict ps)" and "py_lookup ps ''batch_size'' = Some bs"
  shows "returns (load_providers_loop w env device splits cfg provs) log"
proof -
  have "\<forall>provs log. returns (load_providers_loop w env device splits cfg provs) log"
  proof (induction splits)
    case Nil
    show ?case by (simp add: returns_def)
  next
    case (Cons s rest)
    show ?case
    proof (intro allI)
      fix provs log
      have choose: "choose_split_or_env env cfg s log = (Inr (cfg, PStr s), log)"
        using assms(2) by (simp add: choose_split_or_env_def)
      from returns_Inr [OF returns_load_provider [OF assms(1,3-8), of s "PStr s" device log]]
      obtain provider log1 where
        prov: "load_provider w cfg s (PStr s) device log = (Inr provider, log1)" by blast
      from Cons.IH have "returns (load_providers_loop w env device rest cfg
                                    (dict_set provs s provider)) log1"
        by blast
      with choose prov
      show "returns (load_providers_loop w env device (s # rest) cfg provs) log"
        by (simp add: bnd_apply returns_def)
    qed
  qed
  then show ?thesis by blast
qed

lemma returns_load_providers_from_config:
  assumes "quiet_world w"
    and "py_lookup cfg ''env'' = None"
    and "py_lookup cfg ''dataset'' = Some (PDict ds)"
    and "py_lookup ds ''package'' = Some (PStr p)" and "py_lookup ds ''class'' = Some (PStr c)"
    and "py_lookup cfg ''task'' = Some task"
    and "py_lookup cfg ''params'' = Some (PDict ps)" and "py_lookup ps ''batch_size'' = Some bs"
  shows "returns (load_providers_from_config w cfg splits device) log"
proof -
  from returns_Inr [OF returns_load_providers_loop [OF assms, of None device splits "[]" log]]
  obtain r log' where "load_providers_loop w None device splits cfg [] log = (Inr r, log')"
    by blast
  with assms(2) show ?thesis
    by (cases r) (simp add: load_providers_from_config_def bnd_apply returns_def)
qed


lemma plain_configD:
  assumes "plain_config cfg"
  obtains name cm offline task m ds p c ps bs where
    "py_lookup cfg ''name'' = Some name"
    "py_lookup cfg ''cometml'' = Some (PDict cm)"
    "py_lookup cm ''offline'' = Some offline"
    "truthy offline \<or> py_lookup cm ''api_key'' \<noteq> None"
    "py_lookup cfg ''task'' = Some (PDict task)"
    "py_lookup cfg ''model'' = Some (PDict m)" "optional_dict (PDict m) ''params''"
    "py_lookup cfg ''dataset'' = Some (PDict ds)" "optional_dict (PDict ds) ''params''"
    "py_lookup ds ''package'' = Some (PStr p)" "py_lookup ds ''class'' = Some (PStr c)"
    "py_lookup cfg ''params'' = Some (PDict ps)" "py_lookup ps ''batch_size'' = Some bs"
    "py_lookup cfg ''callbacks'' = None" "py_lookup cfg ''env'' = None"
proof -
  from assms obtain name where 1: "py_lookup cfg ''name'' = Some name"
    by (auto simp: plain_config_def)
  from assms obtain cm offline where 2: "py_lookup cfg ''cometml'' = Some (PDict cm)"
    "py_lookup cm ''offline'' = Some offline"
    "truthy offline \<or> py_lookup cm ''api_key'' \<noteq> None"
    by (auto simp: plain_config_def is_dict_iff split: option.splits)
  from assms obtain task where 3: "py_lookup cfg ''task'' = Some (PDict task)"
    by (auto simp: plain_config_def is_dict_iff split: option.splits)
  from assms obtain m where 4: "py_lookup cfg ''model'' = Some (PDict m)"
    "optional_dict (PDict m) ''params''"
    by (auto simp: plain_config_def is_dict_iff split: option.splits)
  from assms obtain dsv where 5: "py_lookup cfg ''dataset'' = Some dsv"
    "has_str dsv ''package''" "has_str dsv ''class''" "optional_dict dsv ''params''"
    by (auto simp: plain_config_def split: option.splits)
  from 5(2) obtain ds where ds: "dsv = PDict ds"
    by (cases dsv) (auto simp: has_str_def)
  from 5 ds obtain p c where 6: "py_lookup ds ''package'' = Some (PStr p)"
    "py_lookup ds ''class'' = Some (PStr c)"
    by (auto simp: has_str_def is_str_iff split: option.splits)
  from assms obtain ps bs where 7: "py_lookup cfg ''params'' = Some (PDict ps)"
    "py_lookup ps ''batch_size'' = Some bs"
    by (auto simp: plain_config_def is_dict_iff split: option.splits)
  from assms have 8: "py_lookup cfg ''callbacks'' = None" "py_lookup cfg ''env'' = None"
    by (auto simp: plain_config_def)
  from 1 2 3 4 5 ds 6 7 8 that show thesis by blast
qed

lemma returns_ExperimentContext_from_config:
  assumes "plain_config cfg" and "quiet_world w"
  shows "returns (ExperimentContext_from_config w cfg splits) log"
proof -
  from assms(1) obtain name cm offline task m ds p c ps bs where
    name: "py_lookup cfg ''name'' = Some name"
    and cm: "py_lookup cfg ''cometml'' = Some (PDict cm)"
    and off: "py_lookup cm ''offline'' = Some offline"
      "truthy offline \<or> py_lookup cm ''api_key'' \<noteq> None"
    and task: "py_lookup cfg ''task'' = Some (PDict task)"
    and m: "py_lookup cfg ''model'' = Some (PDict m)" "optional_dict (PDict m) ''params''"
    and ds: "py_lookup cfg ''dataset'' = Some (PDict ds)" "optional_dict (PDict ds) ''params''"
    and pc: "py_lookup ds ''package'' = Some (PStr p)" "py_lookup ds ''class'' = Some (PStr c)"
    and ps: "py_lookup cfg ''params'' = Some (PDict ps)" "py_lookup ps ''batch_size'' = Some bs"
    and no: "py_lookup cfg ''callbacks'' = None" "py_lookup cfg ''env'' = None"
    by (rule plain_configD)
  from returns_Inr [OF returns_load_cometml_experiment [OF assms(2) off, of name log]]
  obtain comet l1 where
    1: "load_cometml_experiment w (PDict cm) name log = (Inr comet, l1)" by blast
  obtain l2 where
    2: "(if py_lookup cfg ''tags'' \<noteq> None
          then bnd (get (PDict cfg) ''tags'') (\<lambda>tags.
               bnd (call_method w comet ''add_tags'' [tags] []) (\<lambda>_. ret ()))
          else ret ()) l1 = (Inr (), l2)"
    using assms(2) by (cases "py_lookup cfg ''tags''") (auto simp: bnd_apply quiet_simps)
  from returns_Inr [OF returns_log_config [OF assms(2) ps(1) m ds task, of comet l2]]
  obtain l3 where 3: "log_config w comet cfg l2 = (Inr (), l3)" by auto
  from load_callbacks_plain [OF assms(2) no(1), of comet l3]
  obtain callbacks l4 where
    4: "load_callbacks_from_config w cfg comet l3 = (Inr (cfg, callbacks), l4)" by blast
  from returns_Inr [OF returns_load_device_from_config [OF ps(1), of w l4]]
  obtain device l5 where 5: "load_device_from_config w cfg l4 = (Inr device, l5)" by blast
  from returns_Inr [OF returns_load_providers_from_config
                         [OF assms(2) no(2) ds(1) pc task ps, of splits device l5]]
  obtain r l6 where 6: "load_providers_from_config w cfg splits device l5 = (Inr r, l6)"
    by blast
  from name cm 1 2 3 4 5 6 show ?thesis
    by (cases r) (simp add: ExperimentContext_from_config_def bnd_apply get_present returns_def)
qed

section \<open>C1: merging the holders\<close>

text \<open>
  C1 (as the code has it). The specialised contexts build their holder as
  \<^verbatim>\<open>{**self.holder, **experiment_context.holder}\<close>, so the entries of the embedded
  experiment context are stored last: for every key of the embedded holder the merged
  holder has the embedded context's value, also when the specialised context has a
  field of that name, and every other key keeps the specialised context's own value.
  The embedded context takes the higher precedence, not the lower. (A Python
  dictionary has no key twice, which is the hypothesis on the embedded holder.)
\<close>

theorem context_merge_embedded_wins:
  assumes "distinct (map fst (holder experiment_context))"
  shows "py_lookup (holder (TrainingContext_init experiment_context model optimizer loss_fn
                      step_fn epoch_start savers)) k =
           (case py_lookup (holder experiment_context) k of
              Some v \<Rightarrow> Some v
            | None \<Rightarrow> py_lookup [(''model'', model), (''optimizer'', optimizer),
                         (''loss_fn'', loss_fn), (''step_fn'', step_fn),
                         (''epoch_start'', epoch_start), (''savers'', savers)] k)
       \<and> py_lookup (holder (PredictionContext_init experiment_context model)) k =
           (case py_lookup (holder experiment_context) k of
              Some v \<Rightarrow> Some v
            | None \<Rightarrow> py_lookup [(''model'', model)] k)
       \<and> py_lookup (holder (ProcessorContext_init experiment_context)) k =
           py_lookup (holder experiment_context) k"
  using assms
  by (simp add: TrainingContext_init_def PredictionContext_init_def
        ProcessorContext_init_def py_lookup_dict_merge split: option.splits)

theorem context_merge_embedded_wins_witness:
  "py_lookup (holder (TrainingContext_init
       (ExperimentContext_init (PDict example_config) PNone (PDevice ''cpu'') (PDict []) PNone)
       (PStr ''net'') PNone PNone PNone (PInt 1) PNone)) ''device'' = Some (PDevice ''cpu'')
   \<and> py_lookup (holder (PredictionContext_init
       (ExperimentContext_init (PDict example_config) PNone (PDevice ''cpu'') (PDict []) PNone)
       (PStr ''net''))) ''model'' = Some (PStr ''net'')"
  using context_merge_embedded_wins
          [of "ExperimentContext_init (PDict example_config) PNone (PDevice ''cpu'') (PDict []) PNone"
              "PStr ''net''" PNone PNone PNone "PInt 1" PNone "''device''"]
        context_merge_embedded_wins
          [of "ExperimentContext_init (PDict example_config) PNone (PDevice ''cpu'') (PDict []) PNone"
              "PStr ''net''" PNone PNone PNone "PInt 1" PNone "''model''"]
  by (simp add: ExperimentContext_init_def)

text \<open>
  C1, the claim as stated, fails: an embedded holder with a \<^verbatim>\<open>model\<close> entry overrides the
  model of the training and of the prediction context.
\<close>

theorem context_merge_counterexample:
  "py_lookup (holder (TrainingContext_init \<lparr>holder = [(''model'', PStr ''embedded'')]\<rparr>
       (PStr ''own'') PNone PNone PNone (PInt 1) PNone)) ''model'' = Some (PStr ''embedded'')
   \<and> py_lookup (holder (TrainingContext_init \<lparr>holder = [(''model'', PStr ''embedded'')]\<rparr>
       (PStr ''own'') PNone PNone PNone (PInt 1) PNone)) ''model'' \<noteq> Some (PStr ''own'')
   \<and> py_lookup (holder (PredictionContext_init \<lparr>holder = [(''model'', PStr ''embedded'')]\<rparr>
       (PStr ''own''))) ''model'' = Some (PStr ''embedded'')
   \<and> py_lookup (holder (PredictionContext_init \<lparr>holder = [(''model'', PStr ''embedded'')]\<rparr>
       (PStr ''own''))) ''model'' \<noteq> Some (PStr ''own'')"
  by (simp add: TrainingContext_init_def PredictionContext_init_def dict_merge_def)

section \<open>C2: the model of the prediction context\<close>

text \<open>
  C2. When \<^verbatim>\<open>PredictionContext.from_config\<close> returns a context, its \<^verbatim>\<open>model\<close> entry
  is the instance of the class named by the \<^verbatim>\<open>package\<close> and \<^verbatim>\<open>class\<close> of the
  checkpoint's \<^verbatim>\<open>cp-model\<close> entry, constructed with the checkpoint's \<^verbatim>\<open>cp-task\<close>
  entry (and the \<^verbatim>\<open>params\<close> of \<^verbatim>\<open>cp-model\<close>, if any): nothing of the experiment
  configuration enters the construction. The last three external calls are this
  construction, then \<^verbatim>\<open>load_state_dict\<close> on the model with the checkpoint's
  \<^verbatim>\<open>state_dict\<close> and \<^verbatim>\<open>strict=False\<close>, then \<^verbatim>\<open>to\<close> with the device.
\<close>

theorem PredictionContext_from_config_model:
  assumes "PredictionContext_from_config w experiment_config split_names model_path log =
             (Inr ctx, log')"
  shows "\<exists>ckpt cp_model cp_task state_dict pkg cls model device events.
           load_checkpoint_from_path w model_path = Inr ckpt
         \<and> py_getitem ckpt ''cp-model'' = Inr cp_model
         \<and> py_getitem ckpt ''cp-task'' = Inr cp_task
         \<and> py_getitem ckpt ''state_dict'' = Inr state_dict
         \<and> py_getitem cp_model ''package'' = Inr (PStr pkg)
         \<and> py_getitem cp_model ''class'' = Inr (PStr cls)
         \<and> model = PObj (length events) pkg cls
                      (cp_task # (case dict_entry cp_model ''params'' of
                                    None \<Rightarrow> []
                                  | Some p \<Rightarrow> if p = PNone then [] else [p])) []
         \<and> py_lookup (holder ctx) ''model'' = Some model
         \<and> log' = events @ [New model,
                              Call model ''load_state_dict'' [state_dict]
                                [(''strict'', PBool False)],
                              Call model ''to'' [device] []]"
proof -
  from assms have path: "model_path \<noteq> PNone"
    by (auto simp: PredictionContext_from_config_def)
  with assms obtain cfg ec ckpt cp_model cp_task model state_dict device l1 l2 l3 l4 where
    ec: "ExperimentContext_from_config w experiment_config split_names log = (Inr (cfg, ec), l1)"
    and ckpt: "load_checkpoint_from_path w model_path = Inr ckpt"
    and cpm: "py_getitem ckpt ''cp-model'' = Inr cp_model"
    and cpt: "py_getitem ckpt ''cp-task'' = Inr cp_task"
    and model: "load_model_from_config w cp_model cp_task l2 = (Inr model, l3)"
    and sd: "py_getitem ckpt ''state_dict'' = Inr state_dict"
    and load: "call_method w model ''load_state_dict'' [state_dict] [(''strict'', PBool False)] l3
                 = (Inr (PRes (length l3) ''load_state_dict''), l4)"
    and to: "call_method w model ''to'' [device] [] l4 = (Inr (PRes (length l4) ''to''), log')"
    and ctx: "ctx = PredictionContext_init ec model"
    by (auto simp: PredictionContext_from_config_def bnd_Inr_iff get_Inr_iff
          call_method_Inr_iff)
  from load_model_from_config_Inr [OF model] obtain pkg cls where
    pkg: "py_getitem cp_model ''package'' = Inr (PStr pkg)"
    and cls: "py_getitem cp_model ''class'' = Inr (PStr cls)"
    and m: "model = PObj (length l2) pkg cls
                      (cp_task # (case dict_entry cp_model ''params'' of
                                    None \<Rightarrow> []
                                  | Some p \<Rightarrow> if p = PNone then [] else [p])) []"
    and l3: "l3 = l2 @ [New model]"
    by blast
  from load to l3 have log': "log' = l2 @ [New model,
                              Call model ''load_state_dict'' [state_dict]
                                [(''strict'', PBool False)],
                              Call model ''to'' [device] []]"
    by (auto simp: call_method_Inr_iff)
  from ctx PredictionContext_init_model [OF ExperimentContext_from_config_holder [OF ec]]
  have look: "py_lookup (holder ctx) ''model'' = Some model" by simp
  from ckpt cpm cpt sd pkg cls m look log' show ?thesis by blast
qed

theorem PredictionContext_from_config_model_witness:
  "\<exists>ctx events.
      PredictionContext_from_config example_world example_config [''test'']
        (PStr ''model.ckpt'') [] =
        (Inr ctx,
         events @ [New (PObj (length events) ''zoo'' ''OldNet'' [PDict [(''vocab'', PInt 7)]] []),
            Call (PObj (length events) ''zoo'' ''OldNet'' [PDict [(''vocab'', PInt 7)]] [])
              ''load_state_dict'' [PDict [(''w'', PInt 3)]] [(''strict'', PBool False)],
            Call (PObj (length events) ''zoo'' ''OldNet'' [PDict [(''vocab'', PInt 7)]] [])
              ''to'' [PDevice ''cpu''] []])
    \<and> py_lookup (holder ctx) ''model'' =
        Some (PObj (length events) ''zoo'' ''OldNet'' [PDict [(''vocab'', PInt 7)]] [])
    \<and> config_path (PDict example_config) [''model'', ''class''] = Some (PStr ''Net'')"
proof -
  have "returns (PredictionContext_from_config example_world example_config [''test'']
          (PStr ''model.ckpt'')) []"
    by code_simp
  then obtain ctx log' where
    r: "PredictionContext_from_config example_world example_config [''test'']
          (PStr ''model.ckpt'') [] = (Inr ctx, log')"
    by (auto dest: returns_Inr)
  have c: "load_checkpoint_from_path example_world (PStr ''model.ckpt'') = Inr example_checkpoint"
    by (simp add: example_world_def)
  have d: "last (snd (PredictionContext_from_config example_world example_config [''test'']
          (PStr ''model.ckpt'') [])) =
        Call (PObj 14 ''zoo'' ''OldNet'' [PDict [(''vocab'', PInt 7)]] []) ''to''
          [PDevice ''cpu''] []"
    by code_simp
  have e: "config_path (PDict example_config) [''model'', ''class''] = Some (PStr ''Net'')"
    by (simp add: example_config_def)
  from PredictionContext_from_config_model [OF r] c d r
  obtain events where
    "log' = events @ [New (PObj (length events) ''zoo'' ''OldNet'' [PDict [(''vocab'', PInt 7)]] []),
            Call (PObj (length events) ''zoo'' ''OldNet'' [PDict [(''vocab'', PInt 7)]] [])
              ''load_state_dict'' [PDict [(''w'', PInt 3)]] [(''strict'', PBool False)],
            Call (PObj (length events) ''zoo'' ''OldNet'' [PDict [(''vocab'', PInt 7)]] [])
              ''to'' [PDevice ''cpu''] []]"
    and "py_lookup (holder ctx) ''model'' =
        Some (PObj (length events) ''zoo'' ''OldNet'' [PDict [(''vocab'', PInt 7)]] [])"
    by (auto simp: example_checkpoint_def py_getitem.simps)
  with r e show ?thesis by blast
qed

section \<open>C3: the keys of the experiment context\<close>

text \<open>
  C3. \<^verbatim>\<open>ExperimentContext.from_config\<close> returns a context for every plain
  configuration and every list of split names (in a world where the external calls
  succeed). And whenever it returns a context, for any configuration (also one with
  callbacks, tags or an environment) and any list of split names, the holder of the
  context has exactly the keys \<^verbatim>\<open>config\<close>, \<^verbatim>\<open>comet\<close>, \<^verbatim>\<open>device\<close>, \<^verbatim>\<open>providers\<close> and
  \<^verbatim>\<open>callbacks\<close>, and the providers mapping has exactly one entry for each requested
  split name.
\<close>

theorem ExperimentContext_from_config_keys:
  "(plain_config experiment_config \<and> quiet_world w \<longrightarrow>
      returns (ExperimentContext_from_config w experiment_config split_names) log)
   \<and> (\<forall>experiment_config' ctx log'.
        ExperimentContext_from_config w experiment_config split_names log =
          (Inr (experiment_config', ctx), log') \<longrightarrow>
        map fst (holder ctx) = [''config'', ''comet'', ''device'', ''providers'', ''callbacks'']
        \<and> (\<exists>providers. py_lookup (holder ctx) ''providers'' = Some (PDict providers)
              \<and> distinct (map fst providers)
              \<and> set (map fst providers) = set split_names))"
proof (intro conjI allI impI)
  assume "plain_config experiment_config \<and> quiet_world w"
  then show "returns (ExperimentContext_from_config w experiment_config split_names) log"
    by (simp add: returns_ExperimentContext_from_config)
next
  fix experiment_config' ctx log'
  assume r: "ExperimentContext_from_config w experiment_config split_names log =
               (Inr (experiment_config', ctx), log')"
  from ExperimentContext_from_config_Inr [OF r]
  obtain comet callbacks cfg1 device providers log3 where
    prov: "load_providers_from_config w cfg1 split_names device log3 =
             (Inr (experiment_config', providers), log')"
    and ctx: "ctx = ExperimentContext_init (PDict experiment_config') comet device providers
                callbacks"
    by blast
  from load_providers_from_config_Inr [OF prov] obtain env provs log1 where
    loop: "load_providers_loop w env device split_names cfg1 [] log1 =
             (Inr (experiment_config', provs), log')"
    and p: "providers = PDict provs" by blast
  from load_providers_loop_keys [OF loop]
  have k: "distinct (map fst provs)" "set (map fst provs) = set split_names" by simp_all
  show "map fst (holder ctx) = [''config'', ''comet'', ''device'', ''providers'', ''callbacks'']"
    by (simp add: ctx ExperimentContext_init_keys)
  from k show "\<exists>providers. py_lookup (holder ctx) ''providers'' = Some (PDict providers)
              \<and> distinct (map fst providers)
              \<and> set (map fst providers) = set split_names"
    by (simp add: ctx p ExperimentContext_init_lookup)
qed

theorem ExperimentContext_from_config_keys_witness:
  "plain_config example_config \<and> quiet_world example_world
   \<and> (\<exists>cfg' ctx log'.
        ExperimentContext_from_config example_world example_config [''train'', ''dev''] [] =
          (Inr (cfg', ctx), log')
      \<and> map fst (holder ctx) = [''config'', ''comet'', ''device'', ''providers'', ''callbacks'']
      \<and> (\<exists>providers. py_lookup (holder ctx) ''providers'' = Some (PDict providers)
            \<and> distinct (map fst providers)
            \<and> set (map fst providers) = set [''train'', ''dev'']))"
proof -
  have p: "plain_config example_config"
    by (simp add: plain_config_def example_config_def optional_dict_def has_str_def)
  have q: "quiet_world example_world"
    by (simp add: quiet_world_def example_world_def)
  note t = ExperimentContext_from_config_keys
             [of example_config example_world "[''train'', ''dev'']" "[]"]
  from t p q have "returns (ExperimentContext_from_config example_world example_config
          [''train'', ''dev'']) []"
    by blast
  then obtain cfg' ctx log' where
    r: "ExperimentContext_from_config example_world example_config [''train'', ''dev''] [] =
          (Inr (cfg', ctx), log')"
    by (auto dest: returns_Inr)
  from t r have
    c: "map fst (holder ctx) = [''config'', ''comet'', ''device'', ''providers'', ''callbacks'']
      \<and> (\<exists>providers. py_lookup (holder ctx) ''providers'' = Some (PDict providers)
            \<and> distinct (map fst providers)
            \<and> set (map fst providers) = set [''train'', ''dev''])"
    by blast
  have "\<exists>cfg' ctx log'.
        ExperimentContext_from_config example_world example_config [''train'', ''dev''] [] =
          (Inr (cfg', ctx), log')
      \<and> map fst (holder ctx) = [''config'', ''comet'', ''device'', ''providers'', ''callbacks'']
      \<and> (\<exists>providers. py_lookup (holder ctx) ''providers'' = Some (PDict providers)
            \<and> distinct (map fst providers)
            \<and> set (map fst providers) = set [''train'', ''dev''])"
    by (rule exI [of _ cfg'], rule exI [of _ ctx], rule exI [of _ log'], rule conjI [OF r c])
  with p q show ?thesis by simp
qed

section \<open>C4: references between callbacks\<close>

text \<open>
  C4. For a callback list \<^verbatim>\<open>[A, B]\<close> where the \<^verbatim>\<open>kwargs\<close> of \<open>B\<close> have a \<^verbatim>\<open>metrics\<close>
  list, a returning \<^verbatim>\<open>load_callbacks_from_config\<close> has constructed exactly two
  objects, in list order: first an instance \<open>a\<close> of the class of \<open>A\<close>, then an instance
  \<open>b\<close> of the class of \<open>B\<close>. Every entry of the \<^verbatim>\<open>metrics\<close> list is the name under
  which \<open>a\<close> was registered, and \<open>b\<close> was constructed with the keyword arguments of
  \<open>B\<close> in which \<^verbatim>\<open>metrics\<close> is the list of the instance \<open>a\<close> in place of each name;
  the same replacement is visible in the configuration after the call.
\<close>

theorem load_callbacks_resolves_metrics:
  assumes "py_lookup exp_config ''callbacks'' = Some (PList [A, B])"
    and "config_path B [''kwargs'', ''metrics''] = Some (PList refs)"
    and "load_callbacks_from_config w exp_config comet log =
           (Inr (exp_config', callbacks), log')"
  shows "\<exists>a b name_a name_b pa ca args_a kw_a pb cb args_b kw.
           log' = log @ [New a, New b]
         \<and> a = PObj (length log) pa ca args_a kw_a
         \<and> dict_entry A ''package'' = Some (PStr pa)
         \<and> dict_entry A ''class'' = Some (PStr ca)
         \<and> name_attr w a = Some name_a
         \<and> list_all (\<lambda>ref. ref = PStr name_a) refs
         \<and> dict_entry B ''kwargs'' = Some (PDict kw)
         \<and> b = PObj (length log + 1) pb cb args_b
                 (dict_set kw ''metrics'' (PList (map (\<lambda>ref. a) refs)))
         \<and> dict_entry B ''package'' = Some (PStr pb)
         \<and> dict_entry B ''class'' = Some (PStr cb)
         \<and> name_attr w b = Some name_b
         \<and> callbacks = PRegistry ''CallbackRegistry''
                         (registry_setitem (registry_setitem [] name_a a) name_b b)
         \<and> (\<exists>A' B'. py_lookup exp_config' ''callbacks'' = Some (PList [A', B'])
                \<and> config_path B' [''kwargs'', ''metrics''] =
                    Some (PList (map (\<lambda>ref. a) refs)))"
proof -
  from assms(1,3) obtain cs' reg' where
    loop: "load_callbacks_loop w comet [A, B] [] log = (Inr (cs', reg'), log')"
    and cb: "callbacks = PRegistry ''CallbackRegistry'' reg'"
    and cfg': "exp_config' = dict_set exp_config ''callbacks'' (PList cs')"
    by (auto simp: load_callbacks_from_config_def bnd_Inr_iff get_PDict)
  from load_callbacks_loop_Cons_Inr [OF loop] obtain A1 a name_a rest1 where
    a1: "resolve_metrics [] A log = (Inr A1, log)"
    and a2: "load_callback w A1 comet log = (Inr a, log @ [New a])"
    and a3: "name_attr w a = Some name_a"
    and a4: "load_callbacks_loop w comet [B] (registry_setitem [] name_a a) (log @ [New a])
              = (Inr (rest1, reg'), log')"
    and a5: "cs' = A1 # rest1"
    by blast
  from load_callbacks_loop_Cons_Inr [OF a4] obtain B1 b name_b rest2 where
    b1: "resolve_metrics (registry_setitem [] name_a a) B (log @ [New a])
           = (Inr B1, log @ [New a])"
    and b2: "load_callback w B1 comet (log @ [New a]) = (Inr b, (log @ [New a]) @ [New b])"
    and b3: "name_attr w b = Some name_b"
    and b4: "load_callbacks_loop w comet []
               (registry_setitem (registry_setitem [] name_a a) name_b b)
               ((log @ [New a]) @ [New b]) = (Inr (rest2, reg'), log')"
    and b5: "rest1 = B1 # rest2"
    by blast
  from b4 have log': "log' = log @ [New a, New b]"
    and reg': "reg' = registry_setitem (registry_setitem [] name_a a) name_b b"
    and rest2: "rest2 = []"
    by auto
  from load_callback_Inr [OF a2] obtain pa ca args_a kw_a where
    a: "a = PObj (length log) pa ca args_a kw_a"
    and pa: "dict_entry A1 ''package'' = Some (PStr pa)"
    and ca: "dict_entry A1 ''class'' = Some (PStr ca)"
    by blast
  from resolve_metrics_other_entry [OF a1] pa ca
  have pa': "dict_entry A ''package'' = Some (PStr pa)"
    and ca': "dict_entry A ''class'' = Some (PStr ca)"
    by simp_all
  from resolve_metrics_Inr(2) [OF b1] assms(2) obtain d kw objs where
    B: "B = PDict d" and kw: "py_lookup d ''kwargs'' = Some (PDict kw)"
    and objs: "registry_getitems (registry_setitem [] name_a a) refs = Inr objs"
    and B1: "B1 = PDict (dict_set d ''kwargs'' (PDict (dict_set kw ''metrics'' (PList objs))))"
    by auto
  from objs have "registry_getitems [(name_a, a)] refs = Inr objs"
    by (simp add: registry_setitem_def)
  from registry_getitems_single [OF this]
  have objs': "objs = map (\<lambda>ref. a) refs" and names: "list_all (\<lambda>ref. ref = PStr name_a) refs"
    by simp_all
  from load_callback_Inr [OF b2] B1 obtain pb cb args_b where
    b: "b = PObj (length log + 1) pb cb args_b (dict_set kw ''metrics'' (PList objs))"
    and pb: "dict_entry B1 ''package'' = Some (PStr pb)"
    and cbb: "dict_entry B1 ''class'' = Some (PStr cb)"
    by auto
  from resolve_metrics_other_entry [OF b1] pb cbb
  have pb': "dict_entry B ''package'' = Some (PStr pb)"
    and cb': "dict_entry B ''class'' = Some (PStr cb)"
    by simp_all
  from B kw have kw': "dict_entry B ''kwargs'' = Some (PDict kw)" by simp
  from cfg' a5 b5 rest2 B1 objs'
  have "\<exists>A' B'. py_lookup exp_config' ''callbacks'' = Some (PList [A', B'])
                \<and> config_path B' [''kwargs'', ''metrics''] =
                    Some (PList (map (\<lambda>ref. a) refs))"
    by simp
  with log' a pa' ca' a3 names kw' b objs' pb' cb' b3 cb reg' show ?thesis
    by blast
qed

theorem load_callbacks_resolves_metrics_witness:
  "\<exists>cfg' callbacks a b.
      load_callbacks_from_config example_world example_callbacks_config (PStr ''comet'') [] =
        (Inr (cfg', callbacks), [New a, New b])
    \<and> a = PObj 0 ''torchexpresso.callbacks.metrics'' ''AverageLossMetric'' [PStr ''comet''] []
    \<and> b = PObj 1 ''torchexpresso.callbacks.metrics'' ''MetricsMerger'' []
              [(''metrics'', PList [a])]"
proof -
  have "returns (load_callbacks_from_config example_world example_callbacks_config
          (PStr ''comet'')) []"
    by code_simp
  then obtain cfg' callbacks log' where
    r: "load_callbacks_from_config example_world example_callbacks_config (PStr ''comet'') [] =
          (Inr (cfg', callbacks), log')"
    by (auto dest: returns_Inr)
  have cbs: "py_lookup example_callbacks_config ''callbacks'' =
      Some (PList [PDict [(''package'', PStr ''torchexpresso.callbacks.metrics''),
                          (''class'', PStr ''AverageLossMetric'')],
                   PDict [(''package'', PStr ''torchexpresso.callbacks.metrics''),
                          (''class'', PStr ''MetricsMerger''),
                          (''kwargs'', PDict [(''metrics'', PList [PStr ''AverageLossMetric''])])]])"
    by (simp add: example_callbacks_config_def example_callback_configs_def)
  have m: "config_path (PDict [(''package'', PStr ''torchexpresso.callbacks.metrics''),
                          (''class'', PStr ''MetricsMerger''),
                          (''kwargs'', PDict [(''metrics'', PList [PStr ''AverageLossMetric''])])])
             [''kwargs'', ''metrics''] = Some (PList [PStr ''AverageLossMetric''])"
    by simp
  from load_callbacks_resolves_metrics [OF cbs m r]
  obtain a b args_a kw_a args_b where
    l: "log' = [New a, New b]"
    and a: "a = PObj 0 ''torchexpresso.callbacks.metrics'' ''AverageLossMetric'' args_a kw_a"
    and b: "b = PObj 1 ''torchexpresso.callbacks.metrics'' ''MetricsMerger'' args_b
              [(''metrics'', PList [a])]"
    by auto
  have "snd (load_callbacks_from_config example_world example_callbacks_config
          (PStr ''comet'') []) =
        [New (PObj 0 ''torchexpresso.callbacks.metrics'' ''AverageLossMetric''
                [PStr ''comet''] []),
         New (PObj 1 ''torchexpresso.callbacks.metrics'' ''MetricsMerger'' []
                [(''metrics'', PList [PObj 0 ''torchexpresso.callbacks.metrics''
                    ''AverageLossMetric'' [PStr ''comet''] []])])]"
    by code_simp
  with r l a b have "args_a = [PStr ''comet'']" "kw_a = []" "args_b = []"
    by auto
  with r l a b show ?thesis by blast
qed

section \<open>C5: the starting epoch\<close>

text \<open>
  C5. Let \<^verbatim>\<open>TrainingContext.from_config\<close> return a context. If the \<^verbatim>\<open>params\<close> of the
  experiment configuration have a true \<^verbatim>\<open>resume\<close> flag and the checkpoint stored at
  \<^verbatim>\<open>resume_checkpoint_path\<close> has the \<^verbatim>\<open>cp-epoch\<close> entry \<open>n\<close>, the \<^verbatim>\<open>epoch_start\<close>
  entry of the context is \<open>n + 1\<close> (so \<^verbatim>\<open>cp-epoch\<close> 5 gives 6). If the flag is absent
  or false, the entry is 1.
\<close>

theorem TrainingContext_from_config_epoch_start:
  assumes "TrainingContext_from_config w experiment_config split_names log = (Inr ctx, log')"
    and "py_lookup experiment_config ''params'' = Some (PDict params)"
  shows "(\<forall>flag path ckpt n.
            py_lookup params ''resume'' = Some flag \<and> truthy flag
            \<and> py_lookup params ''resume_checkpoint_path'' = Some path
            \<and> load_checkpoint_from_path w path = Inr ckpt
            \<and> py_getitem ckpt ''cp-epoch'' = Inr (PInt n) \<longrightarrow>
            py_lookup (holder ctx) ''epoch_start'' = Some (PInt (n + 1)))
       \<and> (py_lookup params ''resume'' = None
            \<or> (\<exists>flag. py_lookup params ''resume'' = Some flag \<and> \<not> truthy flag) \<longrightarrow>
            py_lookup (holder ctx) ''epoch_start'' = Some (PInt 1))"
proof -
  from assms(1) obtain cfg ec ps is_resume model epoch_start ckpt optimizer loss_fn step_fn
      savers l1 l2 l3 l4 where
    ec: "ExperimentContext_from_config w experiment_config split_names log = (Inr (cfg, ec), l1)"
    and ps: "py_lookup cfg ''params'' = Some ps"
    and flag: "resume_flag ps l2 = (Inr is_resume, l3)"
    and start: "(if truthy is_resume then resume_from_checkpoint w cfg ec model
             else ret (PInt 1, PNone)) l3 = (Inr (epoch_start, ckpt), l4)"
    and ctx: "ctx = TrainingContext_init ec model optimizer loss_fn step_fn epoch_start savers"
    by (auto simp: TrainingContext_from_config_def bnd_Inr_iff get_Inr_iff py_getitem_Inr_iff)
  from ExperimentContext_from_config_other [OF ec, of "''params''"] ps assms(2)
  have ps': "ps = PDict params" by simp
  from resume_flag_Inr [OF flag [unfolded ps']]
  have is_resume: "is_resume = (case py_lookup params ''resume'' of
                                  None \<Rightarrow> PBool False | Some v \<Rightarrow> v)" .
  from ctx TrainingContext_init_epoch_start [OF ExperimentContext_from_config_holder [OF ec]]
  have look: "py_lookup (holder ctx) ''epoch_start'' = Some epoch_start" by simp
  have a: "py_lookup (holder ctx) ''epoch_start'' = Some (PInt (n + 1))"
    if "py_lookup params ''resume'' = Some flag" and "truthy flag"
      and "py_lookup params ''resume_checkpoint_path'' = Some path"
      and "load_checkpoint_from_path w path = Inr ckpt0"
      and "py_getitem ckpt0 ''cp-epoch'' = Inr (PInt n)" for flag path ckpt0 n
  proof -
    from that(1,2) is_resume start
    have "resume_from_checkpoint w cfg ec model l3 = (Inr (epoch_start, ckpt), l4)" by simp
    from resume_from_checkpoint_Inr [OF this] ps ps' that(3,4,5)
    have "epoch_start = PInt (n + 1)"
      by (auto simp: py_getitem_Inr_iff)
    with look show ?thesis by simp
  qed
  have b: "py_lookup (holder ctx) ''epoch_start'' = Some (PInt 1)"
    if "py_lookup params ''resume'' = None
         \<or> (\<exists>flag. py_lookup params ''resume'' = Some flag \<and> \<not> truthy flag)"
  proof -
    from that is_resume have "\<not> truthy is_resume" by auto
    with start have "epoch_start = PInt 1" by simp
    with look show ?thesis by simp
  qed
  from a b show ?thesis by blast
qed

theorem TrainingContext_from_config_epoch_start_witness:
  "(\<exists>ctx log'.
      TrainingContext_from_config example_world example_resume_config [''train''] [] =
        (Inr ctx, log')
    \<and> py_lookup (holder ctx) ''epoch_start'' = Some (PInt 6))
   \<and> (\<exists>ctx log'.
      TrainingContext_from_config example_world example_config [''train''] [] =
        (Inr ctx, log')
    \<and> py_lookup (holder ctx) ''epoch_start'' = Some (PInt 1))"
proof -
  have "returns (TrainingContext_from_config example_world example_resume_config [''train'']) []"
    by code_simp
  then obtain ctx1 log1 where
    r1: "TrainingContext_from_config example_world example_resume_config [''train''] [] =
          (Inr ctx1, log1)"
    by (auto dest: returns_Inr)
  have p1: "py_lookup example_resume_config ''params'' =
              Some (PDict [(''batch_size'', PInt 4), (''resume'', PBool True),
                           (''resume_checkpoint_path'', PStr ''model.ckpt'')])"
    by (simp add: example_resume_config_def example_resume_params_def)
  have c1: "load_checkpoint_from_path example_world (PStr ''model.ckpt'') = Inr example_checkpoint"
    by (simp add: example_world_def)
  have e1: "py_getitem example_checkpoint ''cp-epoch'' = Inr (PInt 5)"
    by (simp add: example_checkpoint_def py_getitem.simps)
  from TrainingContext_from_config_epoch_start [OF r1 p1] c1 e1
  have a: "py_lookup (holder ctx1) ''epoch_start'' = Some (PInt 6)"
    by simp
  have "returns (TrainingContext_from_config example_world example_config [''train'']) []"
    by code_simp
  then obtain ctx2 log2 where
    r2: "TrainingContext_from_config example_world example_config [''train''] [] =
          (Inr ctx2, log2)"
    by (auto dest: returns_Inr)
  have p2: "py_lookup example_config ''params'' =
              Some (PDict [(''batch_size'', PInt 4), (''cpu_only'', PBool True)])"
    by (simp add: example_config_def)
  from TrainingContext_from_config_epoch_start [OF r2 p2]
  have b: "py_lookup (holder ctx2) ''epoch_start'' = Some (PInt 1)"
    by simp
  from r1 a r2 b show ?thesis by blast
qed

section \<open>C6: shuffling\<close>

text \<open>
  C6. When \<^verbatim>\<open>load_providers_from_config\<close> returns, it has built a provider for every
  requested split name and for no other name, and the provider of a split was
  constructed with \<^verbatim>\<open>shuffle\<close> true if and only if the split name is \<^verbatim>\<open>train\<close> and
  the experiment configuration has no \<^verbatim>\<open>env\<close> entry.
\<close>

theorem load_providers_shuffle:
  assumes "load_providers_from_config w experiment_config split_names device log =
             (Inr (experiment_config', providers), log')"
  shows "(\<forall>split_name provider. py_getitem providers split_name = Inr provider \<longrightarrow>
            split_name \<in> set split_names
            \<and> provider_shuffle provider =
                Some (PBool (split_name = ''train'' \<and> py_lookup experiment_config ''env'' = None)))
       \<and> (\<forall>split_name \<in> set split_names. \<exists>provider. py_getitem providers split_name = Inr provider)"
proof -
  from load_providers_from_config_Inr [OF assms] obtain env provs log1 where
    loop: "load_providers_loop w env device split_names experiment_config [] log1 =
             (Inr (experiment_config', provs), log')"
    and p: "providers = PDict provs" by blast
  have a: "split_name \<in> set split_names
            \<and> provider_shuffle provider =
                Some (PBool (split_name = ''train'' \<and> py_lookup experiment_config ''env'' = None))"
    if "py_getitem providers split_name = Inr provider" for split_name provider
    using load_providers_loop_shuffle [OF loop, of split_name provider] that p
    by (auto simp: py_getitem_Inr_iff split: if_splits)
  have b: "\<exists>provider. py_getitem providers split_name = Inr provider"
    if "split_name \<in> set split_names" for split_name
  proof -
    from load_providers_loop_keys [OF loop] that have "split_name \<in> fst ` set provs" by simp
    then obtain x where "py_lookup provs split_name = Some x"
      by (cases "py_lookup provs split_name") (auto simp: py_lookup_None_iff)
    then show ?thesis by (simp add: p py_getitem_Inr_iff)
  qed
  from a b show ?thesis by blast
qed

theorem load_providers_shuffle_witness:
  "\<exists>cfg' providers log' train dev.
      load_providers_from_config example_world example_config [''train'', ''dev'']
        (PDevice ''cpu'') [] = (Inr (cfg', providers), log')
    \<and> py_getitem providers ''train'' = Inr train
    \<and> provider_shuffle train = Some (PBool True)
    \<and> py_getitem providers ''dev'' = Inr dev
    \<and> provider_shuffle dev = Some (PBool False)"
proof -
  have "returns (load_providers_from_config example_world example_config [''train'', ''dev'']
          (PDevice ''cpu'')) []"
    by code_simp
  then obtain cfg' providers log' where
    r: "load_providers_from_config example_world example_config [''train'', ''dev'']
          (PDevice ''cpu'') [] = (Inr (cfg', providers), log')"
    by (auto dest: returns_Inr)
  note t = load_providers_shuffle [OF r]
  have env: "py_lookup example_config ''env'' = None"
    by (simp add: example_config_def)
  from t obtain train dev where
    g: "py_getitem providers ''train'' = Inr train" "py_getitem providers ''dev'' = Inr dev"
    by auto
  from t g env have
    s: "provider_shuffle train = Some (PBool True)" "provider_shuffle dev = Some (PBool False)"
    by auto
  from r g s show ?thesis by blast
qed

section \<open>C7: device selection\<close>

text \<open>
  C7. When the \<^verbatim>\<open>params\<close> of the experiment configuration set \<^verbatim>\<open>cpu_only\<close> to true,
  \<^verbatim>\<open>load_device_from_config\<close> returns the CPU device whether or not CUDA is available.
  When \<^verbatim>\<open>cpu_only\<close> is absent or false, it returns \<^verbatim>\<open>cuda:0\<close> exactly when CUDA is
  available, and the CPU device otherwise.
\<close>

theorem load_device_from_config_cpu_only:
  assumes "py_lookup experiment_config ''params'' = Some (PDict params)"
  shows "(py_lookup params ''cpu_only'' = Some (PBool True) \<longrightarrow>
            load_device_from_config w experiment_config log = (Inr (PDevice ''cpu''), log))
       \<and> (py_lookup params ''cpu_only'' = None
            \<or> py_lookup params ''cpu_only'' = Some (PBool False) \<longrightarrow>
            load_device_from_config w experiment_config log =
              (Inr (PDevice (if cuda_is_available w then ''cuda:0'' else ''cpu'')), log))"
  using assms
  by (auto simp: load_device_from_config_def load_device_def PARAM_CPU_ONLY_def
        get_PDict contains_PDict)

theorem load_device_from_config_cpu_only_witness:
  "load_device_from_config example_world example_config [] = (Inr (PDevice ''cpu''), [])
   \<and> cuda_is_available example_world
   \<and> load_device_from_config example_world
        (dict_set example_config ''params'' (PDict [(''batch_size'', PInt 4)])) [] =
       (Inr (PDevice ''cuda:0''), [])"
  using load_device_from_config_cpu_only
          [of example_config "[(''batch_size'', PInt 4), (''cpu_only'', PBool True)]"
              example_world "[]"]
        load_device_from_config_cpu_only
          [of "dict_set example_config ''params'' (PDict [(''batch_size'', PInt 4)])"
              "[(''batch_size'', PInt 4)]" example_world "[]"]
  by (simp add: example_config_def example_world_def get_PDict contains_PDict)

section \<open>C8: prediction without a model path\<close>

text \<open>
  C8. \<^verbatim>\<open>PredictionContext.from_config\<close> with the model path \<^verbatim>\<open>None\<close> raises the
  exception at once, for every configuration, list of split names and world: the
  event log is returned as it was, so no component has been constructed and no external
  call made, and the result is the exception, not a context.
\<close>

theorem PredictionContext_from_config_missing_model_path:
  "PredictionContext_from_config w experiment_config split_names PNone log =
     (Inl (Exception ''Missing 'model_path' argument. Please provide a path to the model.''),
      log)"
  by (simp add: PredictionContext_from_config_def)

section \<open>C9: the configuration is changed in place\<close>

text \<open>
  C9. When \<^verbatim>\<open>ExperimentContext.from_config\<close> returns, the \<^verbatim>\<open>config\<close> entry of the
  context is the configuration as the loaders left it, which need not be the
  configuration that was passed in. With an \<^verbatim>\<open>env\<close> entry and at least one split name,
  the \<^verbatim>\<open>params\<close> of its \<^verbatim>\<open>dataset\<close> section hold the last split name under
  \<^verbatim>\<open>split_name\<close> and the section is otherwise as it was; with an \<^verbatim>\<open>env\<close> entry the
  dataset of each split was constructed when those \<^verbatim>\<open>params\<close> held that split's name;
  without an \<^verbatim>\<open>env\<close> entry, or without split names, the section is as it was. When
  the \<^verbatim>\<open>callbacks\<close> entry is a list, the call constructed one instance for each of
  its configurations, in order, and every configuration whose \<^verbatim>\<open>kwargs\<close> have a
  \<^verbatim>\<open>metrics\<close> entry has that one entry replaced by the list that holds, for each
  reference in turn, the instance of that name constructed last among the earlier
  callbacks; nothing else in a callback configuration changed, and a configuration
  without such an entry is as it was. A \<^verbatim>\<open>callbacks\<close> entry that is not a list, and
  every entry other than \<^verbatim>\<open>callbacks\<close> and \<^verbatim>\<open>dataset\<close>, is as it was.
\<close>

theorem ExperimentContext_from_config_mutates_config:
  assumes "ExperimentContext_from_config w experiment_config split_names log =
             (Inr (experiment_config', ctx), log')"
  shows "py_lookup (holder ctx) ''config'' = Some (PDict experiment_config')
       \<and> (py_lookup experiment_config ''env'' \<noteq> None \<and> split_names \<noteq> [] \<longrightarrow>
            config_path (PDict experiment_config') [''dataset'', ''params'', ''split_name''] =
              Some (PStr (last split_names)))
       \<and> (py_lookup experiment_config ''env'' \<noteq> None \<longrightarrow>
            (\<forall>split_name provider.
               config_path (PDict (holder ctx)) [''providers'', split_name] = Some provider \<longrightarrow>
               (\<exists>i j pkg cls task env params device kw.
                  provider = PObj i ''torch.utils.data.dataloader'' ''DataLoader''
                               [PObj j pkg cls [task, env, PDict params, device] []] kw
                \<and> py_lookup params ''split_name'' = Some (PStr split_name))))
       \<and> (\<forall>cs. py_lookup experiment_config ''callbacks'' = Some (PList cs) \<longrightarrow>
            (\<exists>cs' insts. py_lookup experiment_config' ''callbacks'' = Some (PList cs')
                 \<and> callbacks_resolved w [] cs cs' insts
                 \<and> list_all (\<lambda>x. New x \<in> set log') insts))
       \<and> ((\<forall>cs. py_lookup experiment_config ''callbacks'' \<noteq> Some (PList cs)) \<longrightarrow>
            py_lookup experiment_config' ''callbacks'' = py_lookup experiment_config ''callbacks'')
       \<and> (py_lookup experiment_config ''env'' \<noteq> None \<and> split_names \<noteq> [] \<longrightarrow>
            (\<exists>ds ps. py_lookup experiment_config ''dataset'' = Some (PDict ds)
                 \<and> py_lookup ds ''params'' = Some (PDict ps)
                 \<and> py_lookup experiment_config' ''dataset'' =
                     Some (PDict (dict_set ds ''params''
                             (PDict (dict_set ps ''split_name'' (PStr (last split_names))))))))
       \<and> (py_lookup experiment_config ''env'' = None \<or> split_names = [] \<longrightarrow>
            py_lookup experiment_config' ''dataset'' = py_lookup experiment_config ''dataset'')
       \<and> (\<forall>k. k \<noteq> ''callbacks'' \<and> k \<noteq> ''dataset'' \<longrightarrow>
            py_lookup experiment_config' k = py_lookup experiment_config k)"
proof -
  from ExperimentContext_from_config_Inr [OF assms]
  obtain comet callbacks cfg1 device providers log1 log2 log3 where
    cb: "load_callbacks_from_config w experiment_config comet log1 =
           (Inr (cfg1, callbacks), log2)"
    and dev: "load_device_from_config w cfg1 log2 = (Inr device, log3)"
    and prov: "load_providers_from_config w cfg1 split_names device log3 =
             (Inr (experiment_config', providers), log')"
    and ctx: "ctx = ExperimentContext_init (PDict experiment_config') comet device providers
                callbacks"
    by blast
  from load_providers_from_config_Inr [OF prov] obtain env provs log4 where
    loop: "load_providers_loop w env device split_names cfg1 [] log4 =
             (Inr (experiment_config', provs), log')"
    and provs: "providers = PDict provs"
    by blast
  have sub: "set log2 \<subseteq> set log'"
    using load_device_from_config_log [OF dev] load_providers_from_config_log [OF prov]
    by simp
  have env1: "py_lookup cfg1 ''env'' = py_lookup experiment_config ''env''"
    using load_callbacks_from_config_other [OF cb, of "''env''"] by simp
  have ds1: "py_lookup cfg1 ''dataset'' = py_lookup experiment_config ''dataset''"
    using load_callbacks_from_config_other [OF cb, of "''dataset''"] by simp
  have cb2: "py_lookup experiment_config' ''callbacks'' = py_lookup cfg1 ''callbacks''"
    using load_providers_loop_env [OF loop, of "''callbacks''"] by simp
  have a: "py_lookup (holder ctx) ''config'' = Some (PDict experiment_config')"
    by (simp add: ctx ExperimentContext_init_lookup)
  have b: "config_path (PDict experiment_config') [''dataset'', ''params'', ''split_name''] =
              Some (PStr (last split_names))"
    if "py_lookup experiment_config ''env'' \<noteq> None" and "split_names \<noteq> []"
    using load_providers_loop_split_name [OF loop _ that(2)] that(1) env1 by simp
  have c: "\<exists>i j pkg cls task env params device kw.
                  provider = PObj i ''torch.utils.data.dataloader'' ''DataLoader''
                               [PObj j pkg cls [task, env, PDict params, device] []] kw
                \<and> py_lookup params ''split_name'' = Some (PStr split_name)"
    if "py_lookup experiment_config ''env'' \<noteq> None"
      and "config_path (PDict (holder ctx)) [''providers'', split_name] = Some provider"
    for split_name provider
  proof -
    from that(2) have 1: "py_lookup provs split_name = Some provider"
      by (simp add: ctx provs ExperimentContext_init_lookup split: option.splits)
    from that(1) env1 have 2: "py_lookup cfg1 ''env'' \<noteq> None" by simp
    from load_providers_loop_dataset [OF loop 2 1] show ?thesis
      by (auto split: if_splits)
  qed
  have d: "\<exists>cs' insts. py_lookup experiment_config' ''callbacks'' = Some (PList cs')
                 \<and> callbacks_resolved w [] cs cs' insts
                 \<and> list_all (\<lambda>x. New x \<in> set log') insts"
    if "py_lookup experiment_config ''callbacks'' = Some (PList cs)" for cs
  proof -
    from load_callbacks_from_config_resolved [OF cb that] obtain cs' insts where
      1: "py_lookup cfg1 ''callbacks'' = Some (PList cs')"
      and 2: "callbacks_resolved w [] cs cs' insts"
      and 3: "log2 = log1 @ map New insts"
      by blast
    from 3 sub have "list_all (\<lambda>x. New x \<in> set log') insts"
      by (auto simp: list_all_iff)
    with 1 2 cb2 show ?thesis by auto
  qed
  have e: "py_lookup experiment_config' ''callbacks'' = py_lookup experiment_config ''callbacks''"
    if "\<forall>cs. py_lookup experiment_config ''callbacks'' \<noteq> Some (PList cs)"
    using load_callbacks_from_config_not_list [OF cb that] cb2 by simp
  have f: "\<exists>ds ps. py_lookup experiment_config ''dataset'' = Some (PDict ds)
                 \<and> py_lookup ds ''params'' = Some (PDict ps)
                 \<and> py_lookup experiment_config' ''dataset'' =
                     Some (PDict (dict_set ds ''params''
                             (PDict (dict_set ps ''split_name'' (PStr (last split_names))))))"
    if "py_lookup experiment_config ''env'' \<noteq> None" and "split_names \<noteq> []"
  proof -
    from that(1) env1 have 2: "py_lookup cfg1 ''env'' \<noteq> None" by simp
    from load_providers_loop_dataset_section [OF loop 2 that(2)] ds1 show ?thesis
      by auto
  qed
  have g: "py_lookup experiment_config' ''dataset'' = py_lookup experiment_config ''dataset''"
    if "py_lookup experiment_config ''env'' = None \<or> split_names = []"
  proof (cases "split_names = []")
    case True
    with loop have "experiment_config' = cfg1" by simp
    with ds1 show ?thesis by simp
  next
    case False
    with that env1 have "py_lookup cfg1 ''env'' = None" by simp
    from load_providers_loop_no_env [OF loop this] ds1 show ?thesis by simp
  qed
  have h: "py_lookup experiment_config' k = py_lookup experiment_config k"
    if "k \<noteq> ''callbacks'' \<and> k \<noteq> ''dataset''" for k
    using ExperimentContext_from_config_other [OF assms, of k] that by simp
  from a b c d e f g h show ?thesis by blast
qed

theorem ExperimentContext_from_config_mutates_config_witness:
  "\<exists>cfg' ctx log'.
      ExperimentContext_from_config example_world example_env_config [''train'', ''dev''] [] =
        (Inr (cfg', ctx), log')
    \<and> py_lookup (holder ctx) ''config'' = Some (PDict cfg')
    \<and> config_path (PDict example_env_config) [''dataset'', ''params'', ''split_name''] = None
    \<and> config_path (PDict cfg') [''dataset'', ''params'', ''split_name''] = Some (PStr ''dev'')
    \<and> cfg' \<noteq> example_env_config
    \<and> (\<exists>i j pkg cls task env params device kw.
          config_path (PDict (holder ctx)) [''providers'', ''train''] =
            Some (PObj i ''torch.utils.data.dataloader'' ''DataLoader''
                    [PObj j pkg cls [task, env, PDict params, device] []] kw)
        \<and> py_lookup params ''split_name'' = Some (PStr ''train''))
    \<and> py_lookup cfg' ''callbacks'' =
          Some (PList
            [PDict [(''package'', PStr ''torchexpresso.callbacks.metrics''),
                    (''class'', PStr ''AverageLossMetric'')],
             PDict [(''package'', PStr ''torchexpresso.callbacks.metrics''),
                    (''class'', PStr ''MetricsMerger''),
                    (''kwargs'', PDict [(''metrics'', PList
                       [PObj 8 ''torchexpresso.callbacks.metrics'' ''AverageLossMetric''
                          [PObj 2 ''comet_ml'' ''OfflineExperiment'' []
                             [(''workspace'', PNone), (''project_name'', PNone),
                              (''offline_directory'', PStr ''/tmp/cometml'')]]
                          []])])]])
    \<and> (\<exists>cs' insts. py_lookup cfg' ''callbacks'' = Some (PList cs')
          \<and> callbacks_resolved example_world [] example_callback_configs cs' insts
          \<and> list_all (\<lambda>x. New x \<in> set log') insts)
    \<and> py_lookup cfg' ''dataset'' =
          Some (PDict [(''package'', PStr ''corpora''), (''class'', PStr ''Corpus''),
                       (''params'', PDict [(''path'', PStr ''data''),
                                           (''split_name'', PStr ''dev'')])])
    \<and> py_lookup cfg' ''name'' = py_lookup example_env_config ''name''"
proof -
  have "returns (ExperimentContext_from_config example_world example_env_config
          [''train'', ''dev'']) []"
    by code_simp
  then obtain cfg' ctx log' where
    r: "ExperimentContext_from_config example_world example_env_config [''train'', ''dev''] [] =
          (Inr (cfg', ctx), log')"
    by (auto dest: returns_Inr)
  have "map_sum id (\<lambda>(cfg, ctx). config_path (PDict (holder ctx)) [''providers'', ''train''] \<noteq> None)
          (fst (ExperimentContext_from_config example_world example_env_config
                  [''train'', ''dev''] [])) = Inr True"
    by code_simp
  with r obtain train where
    train: "config_path (PDict (holder ctx)) [''providers'', ''train''] = Some train"
    by auto
  have "map_sum id (\<lambda>(cfg, ctx). py_lookup cfg ''callbacks'')
          (fst (ExperimentContext_from_config example_world example_env_config
                  [''train'', ''dev''] [])) =
        Inr (Some (PList
            [PDict [(''package'', PStr ''torchexpresso.callbacks.metrics''),
                    (''class'', PStr ''AverageLossMetric'')],
             PDict [(''package'', PStr ''torchexpresso.callbacks.metrics''),
                    (''class'', PStr ''MetricsMerger''),
                    (''kwargs'', PDict [(''metrics'', PList
                       [PObj 8 ''torchexpresso.callbacks.metrics'' ''AverageLossMetric''
                          [PObj 2 ''comet_ml'' ''OfflineExperiment'' []
                             [(''workspace'', PNone), (''project_name'', PNone),
                              (''offline_directory'', PStr ''/tmp/cometml'')]]
                          []])])]]))"
    by code_simp
  with r have conc: "py_lookup cfg' ''callbacks'' =
          Some (PList
            [PDict [(''package'', PStr ''torchexpresso.callbacks.metrics''),
                    (''class'', PStr ''AverageLossMetric'')],
             PDict [(''package'', PStr ''torchexpresso.callbacks.metrics''),
                    (''class'', PStr ''MetricsMerger''),
                    (''kwargs'', PDict [(''metrics'', PList
                       [PObj 8 ''torchexpresso.callbacks.metrics'' ''AverageLossMetric''
                          [PObj 2 ''comet_ml'' ''OfflineExperiment'' []
                             [(''workspace'', PNone), (''project_name'', PNone),
                              (''offline_directory'', PStr ''/tmp/cometml'')]]
                          []])])]])"
    by simp
  have env: "py_lookup example_env_config ''env'' \<noteq> None"
    by (simp add: example_env_config_def)
  have cbs: "py_lookup example_env_config ''callbacks'' = Some (PList example_callback_configs)"
    by (simp add: example_env_config_def example_callbacks_config_def)
  have dsx: "py_lookup example_env_config ''dataset'' =
               Some (PDict [(''package'', PStr ''corpora''), (''class'', PStr ''Corpus''),
                            (''params'', PDict [(''path'', PStr ''data'')])])"
    by (simp add: example_env_config_def example_callbacks_config_def example_config_def)
  have none: "config_path (PDict example_env_config) [''dataset'', ''params'', ''split_name'']
                = None"
    by (simp add: dsx)
  have sp: "[''train'', ''dev''] \<noteq> ([] :: string list)" by simp
  have nk: "''name'' \<noteq> ''callbacks'' \<and> ''name'' \<noteq> ''dataset''" by simp
  note t = ExperimentContext_from_config_mutates_config [OF r]
  note cfg = t [THEN conjunct1]
  note t2 = t [THEN conjunct2]
  note t3 = t2 [THEN conjunct2]
  note t4 = t3 [THEN conjunct2]
  note t5 = t4 [THEN conjunct2]
  note t6 = t5 [THEN conjunct2]
  note t7 = t6 [THEN conjunct2]
  note t8 = t7 [THEN conjunct2]
  from t2 [THEN conjunct1, THEN mp, OF conjI [OF env sp]]
  have last: "config_path (PDict cfg') [''dataset'', ''params'', ''split_name''] =
      Some (PStr ''dev'')"
    by simp
  from t3 [THEN conjunct1, THEN mp, OF env, THEN spec, THEN spec, THEN mp, OF train]
  obtain i j pkg cls task env params device kw where
    tr: "train = PObj i ''torch.utils.data.dataloader'' ''DataLoader''
                   [PObj j pkg cls [task, env, PDict params, device] []] kw"
    and sn: "py_lookup params ''split_name'' = Some (PStr ''train'')"
    by blast
  from train tr have tr': "config_path (PDict (holder ctx)) [''providers'', ''train''] =
            Some (PObj i ''torch.utils.data.dataloader'' ''DataLoader''
                    [PObj j pkg cls [task, env, PDict params, device] []] kw)"
    by (rule subst [where P = "\<lambda>x. config_path (PDict (holder ctx)) [''providers'', ''train'']
                                   = Some x", rotated])
  from tr' sn have each: "\<exists>i j pkg cls task env params device kw.
          config_path (PDict (holder ctx)) [''providers'', ''train''] =
            Some (PObj i ''torch.utils.data.dataloader'' ''DataLoader''
                    [PObj j pkg cls [task, env, PDict params, device] []] kw)
        \<and> py_lookup params ''split_name'' = Some (PStr ''train'')"
    by (intro exI conjI)
  note over = t4 [THEN conjunct1, THEN spec, THEN mp, OF cbs]
  from t6 [THEN conjunct1, THEN mp, OF conjI [OF env sp]]
  obtain ds ps where
    1: "py_lookup example_env_config ''dataset'' = Some (PDict ds)"
    and 2: "py_lookup ds ''params'' = Some (PDict ps)"
    and 3: "py_lookup cfg' ''dataset'' =
              Some (PDict (dict_set ds ''params''
                      (PDict (dict_set ps ''split_name'' (PStr (last [''train'', ''dev'']))))))"
    by blast
  from 1 dsx have ds: "ds = [(''package'', PStr ''corpora''), (''class'', PStr ''Corpus''),
                            (''params'', PDict [(''path'', PStr ''data'')])]"
    by simp
  from 2 ds have ps: "ps = [(''path'', PStr ''data'')]" by simp
  from 3 ds ps have dset: "py_lookup cfg' ''dataset'' =
          Some (PDict [(''package'', PStr ''corpora''), (''class'', PStr ''Corpus''),
                       (''params'', PDict [(''path'', PStr ''data''),
                                           (''split_name'', PStr ''dev'')])])"
    by simp
  note nm = t8 [THEN spec, THEN mp, OF nk]
  from last none have ne: "cfg' \<noteq> example_env_config" by auto
  note c = conjI [OF cfg conjI [OF none conjI [OF last conjI [OF ne conjI [OF each
             conjI [OF conc conjI [OF over conjI [OF dset nm]]]]]]]]
  show ?thesis
    by (rule exI [of _ cfg'], rule exI [of _ ctx], rule exI [of _ log'], rule conjI [OF r c])
qed

section \<open>C10: the default callback\<close>

text \<open>
  C10. For an experiment configuration with no \<^verbatim>\<open>callbacks\<close> entry,
  \<^verbatim>\<open>load_callbacks_from_config\<close> constructs one \<^verbatim>\<open>AverageLossMetric\<close> with the tracking
  client as its only argument and returns the registry that holds exactly this
  instance, under the instance's name; the configuration is left as it was. (The call
  returns whenever the constructor does not raise and the instance has a name.)
\<close>

theorem load_callbacks_default:
  assumes "py_lookup exp_config ''callbacks'' = None"
    and "loss_default =
           PObj (length log) ''torchexpresso.callbacks.metrics'' ''AverageLossMetric'' [comet] []"
    and "raises w log (New loss_default) = None"
    and "name_attr w loss_default = Some name"
  shows "load_callbacks_from_config w exp_config comet log =
           (Inr (exp_config, PRegistry ''CallbackRegistry'' [(name, loss_default)]),
            log @ [New loss_default])"
  using assms
  by (simp add: load_callbacks_from_config_def act_Inr_iffs registry_setitem_def)

theorem load_callbacks_default_witness:
  "load_callbacks_from_config example_world example_config (PStr ''comet'') [] =
     (Inr (example_config,
           PRegistry ''CallbackRegistry''
             [(''AverageLossMetric'',
               PObj 0 ''torchexpresso.callbacks.metrics'' ''AverageLossMetric''
                 [PStr ''comet''] [])]),
      [New (PObj 0 ''torchexpresso.callbacks.metrics'' ''AverageLossMetric''
              [PStr ''comet''] [])])"
  using load_callbacks_default
          [of example_config
              "PObj 0 ''torchexpresso.callbacks.metrics'' ''AverageLossMetric'' [PStr ''comet''] []"
              "[]" "PStr ''comet''" example_world "''AverageLossMetric''"]
  by (simp add: example_config_def example_world_def)

end
